theory Spec2Isabelle
  imports Main
begin

section \<open>Strings\<close>

text \<open>
  A Python \<^verbatim>\<open>str\<close> is kept as the bytes of its UTF-8 encoding. Concatenation,
  \<^verbatim>\<open>str.startswith\<close> and the substring test \<^verbatim>\<open>k in s\<close> are the same on the
  bytes as on the code points, since no encoded character occurs inside another one.

  \<^verbatim>\<open>str.lower\<close> follows the Unicode case mapping. On a text of ASCII characters only
  it maps \<open>A..Z\<close> to \<open>a..z\<close> and leaves every other character alone; that part is
  written out. On a text with a character outside ASCII (where, for one, the Kelvin
  sign U+212A becomes \<open>k\<close>) it is the parameter \<open>unicode_lower\<close>: the case mapping
  of the Python runtime, which is not part of the sources.
\<close>

definition is_ascii :: "char \<Rightarrow> bool" where
  "is_ascii c = (\<not> digit7 c)"

definition lower_char :: "char \<Rightarrow> char" where
  "lower_char c =
     (case map_of (zip ''ABCDEFGHIJKLMNOPQRSTUVWXYZ'' ''abcdefghijklmnopqrstuvwxyz'') c of
        Some d \<Rightarrow> d
      | None \<Rightarrow> c)"

definition lower :: "(string \<Rightarrow> string) \<Rightarrow> string \<Rightarrow> string" where
  "lower unicode_lower s = (if list_all is_ascii s then map lower_char s else unicode_lower s)"

fun startswith :: "string \<Rightarrow> string \<Rightarrow> bool" where
  "startswith s [] = True"
| "startswith [] (p # ps) = False"
| "startswith (c # cs) (p # ps) = (c = p \<and> startswith cs ps)"

text \<open>\<open>contains k s\<close> is Python's \<^verbatim>\<open>k in s\<close>.\<close>

fun contains :: "string \<Rightarrow> string \<Rightarrow> bool" where
  "contains k [] = (k = [])"
| "contains k (c # cs) = (startswith (c # cs) k \<or> contains k cs)"

text \<open>\<^verbatim>\<open>any(keyword in text for keyword in keywords)\<close>\<close>

definition any_keyword :: "string list \<Rightarrow> string \<Rightarrow> bool" where
  "any_keyword keywords text = list_ex (\<lambda>keyword. contains keyword text) keywords"

text \<open>\<^verbatim>\<open>d.get(key, default)\<close> on a dictionary kept as an association list.\<close>

definition dict_get :: "('k \<times> 'v) list \<Rightarrow> 'k \<Rightarrow> 'v \<Rightarrow> 'v" where
  "dict_get d key dflt = (case map_of d key of Some v \<Rightarrow> v | None \<Rightarrow> dflt)"


section \<open>Exceptions\<close>

text \<open>
  What a call can raise. \<open>Exception e\<close> is an instance of Python's \<^verbatim>\<open>Exception\<close>
  whose \<^verbatim>\<open>str\<close> is \<open>e\<close>: the kind that \<^verbatim>\<open>except Exception\<close> catches.
  \<open>BaseException n\<close> is an exception outside that class, named \<open>n\<close>:
  \<^verbatim>\<open>asyncio.CancelledError\<close> at an await when the task is cancelled,
  \<^verbatim>\<open>GeneratorExit\<close> at a yield when the generator is closed,
  \<^verbatim>\<open>KeyboardInterrupt\<close>. No handler of the sources catches it.
\<close>

datatype exn = Exception string | BaseException string


section \<open>Data model (app/chat/models.py, app/chat/schemas.py)\<close>

type_synonym uuid = nat
type_synonym datetime = nat

datatype MessageRole = USER | ASSISTANT | SYSTEM

record Conversation =
  c_id :: uuid
  c_title :: string
  c_user_id :: uuid
  c_model_id :: string
  c_created_at :: datetime
  c_updated_at :: datetime

record Message =
  m_id :: uuid
  m_content :: string
  m_role :: MessageRole
  m_conversation_id :: uuid
  m_model_id :: "string option"
  m_token_count :: "string option"
  m_created_at :: datetime

record MessageCreate =
  mc_content :: string
  mc_role :: MessageRole
  mc_model_id :: "string option"

record ChatRequest =
  rq_message :: string
  rq_conversation_id :: uuid
  rq_model_id :: string

text \<open>The two tables the chat service writes and reads.\<close>

record database =
  conversations :: "Conversation list"
  messages :: "Message list"

text \<open>
  One entry of the list sent to a provider: \<^verbatim>\<open>{"role": ..., "content": ...}\<close>.
  The role is a plain string where \<^verbatim>\<open>_prepare_messages\<close> writes a literal, and the
  enum member of the stored message where it copies \<^verbatim>\<open>msg.role\<close>.
\<close>

datatype role_value = RoleStr string | RoleEnum MessageRole

record chat_message =
  cm_role :: role_value
  cm_content :: string

text \<open>
  The enrichment context is a dictionary with the optional keys \<^verbatim>\<open>web_search\<close> and
  \<^verbatim>\<open>crypto_data\<close>. A search result and a ticker are dictionaries read with
  \<^verbatim>\<open>.get\<close>; the ticker's numbers are carried as the text that the f-string prints.
\<close>

type_synonym web_result = "(string \<times> string) list"
type_synonym ticker = "(string \<times> string) list"

record enhanced_context =
  web_search :: "web_result list option"
  crypto_data :: "(string \<times> ticker) list option"


section \<open>Collaborators and effects\<close>

text \<open>
  Native provider events. An OpenAI or Groq chunk is read as
  \<^verbatim>\<open>chunk.choices[0].delta.content\<close>; an Anthropic event as \<^verbatim>\<open>chunk.type\<close> and
  \<^verbatim>\<open>chunk.delta.text\<close>. A native stream delivers its events and then either ends
  or raises.
\<close>

record chunk =
  choices :: "string option list"

record anthropic_event =
  ev_type :: string
  delta_text :: string

record 'e native_stream =
  events :: "'e list"
  raised :: "exn option"

text \<open>Every call that leaves the process, in the order it is made.\<close>

datatype call =
    DbCommit Message
  | DbRefresh Message
  | DbLoad uuid
  | WebSearch string nat
  | MarketData
  | OpenAICreate string "chat_message list"
  | AnthropicCreate string string "chat_message list"
  | GroqCreate string "chat_message list"

record world =
  store :: database
  calls :: "call list"

text \<open>
  What the outside does when called: it returns, or raises (\<open>Inl\<close>, or \<open>Some\<close> for a
  call without a result). Each behaviour may depend on everything that happened
  before. \<open>get_conversation_with_messages\<close> is a method of the chat service whose body
  is not part of the sources, so it is a parameter as well, and so is
  \<open>unicode_lower\<close>.

  \<open>client_gone = Some n\<close>: the client has gone after \<open>n\<close> lines of the response, so the
  endpoint's generator is closed, with \<^verbatim>\<open>GeneratorExit\<close>, at its next yield.
  \<open>None\<close>: the client reads to the end.
\<close>

record collab =
  uuid4 :: "world \<Rightarrow> uuid"
  utcnow :: "world \<Rightarrow> datetime"
  unicode_lower :: "string \<Rightarrow> string"
  commit :: "world \<Rightarrow> Message \<Rightarrow> exn option"
  refresh :: "world \<Rightarrow> Message \<Rightarrow> exn option"
  get_conversation_with_messages :: "world \<Rightarrow> uuid \<Rightarrow> exn + Message list"
  search :: "world \<Rightarrow> string \<Rightarrow> nat \<Rightarrow> exn + web_result list"
  get_market_data :: "world \<Rightarrow> exn + (string \<times> ticker) list"
  openai_create :: "world \<Rightarrow> string \<Rightarrow> chat_message list \<Rightarrow> exn + chunk native_stream"
  anthropic_create ::
    "world \<Rightarrow> string \<Rightarrow> string \<Rightarrow> chat_message list \<Rightarrow> exn + anthropic_event native_stream"
  groq_create :: "world \<Rightarrow> string \<Rightarrow> chat_message list \<Rightarrow> exn + chunk native_stream"
  client_gone :: "nat option"

definition record_call :: "call \<Rightarrow> world \<Rightarrow> world" where
  "record_call c w = w\<lparr>calls := calls w @ [c]\<rparr>"


section \<open>ChatService (app/chat/services.py)\<close>

subsection \<open>add_message\<close>

text \<open>
  \<open>message_row\<close> is the row that \<^verbatim>\<open>Message(...)\<close> becomes on insert, with the
  column defaults (\<^verbatim>\<open>uuid.uuid4\<close>, \<^verbatim>\<open>datetime.utcnow\<close>) filled in. Then
  \<^verbatim>\<open>db.add(message); await db.commit(); await db.refresh(message)\<close>: a commit that
  raises stores nothing, a refresh that raises leaves the row stored. The function has
  no handler, so whatever is raised leaves it. Nothing is written to the conversations
  table.
\<close>

definition message_row :: "collab \<Rightarrow> world \<Rightarrow> uuid \<Rightarrow> MessageCreate \<Rightarrow> Message" where
  "message_row env w conversation_id message_data =
     \<lparr>m_id = uuid4 env w,
      m_content = mc_content message_data,
      m_role = mc_role message_data,
      m_conversation_id = conversation_id,
      m_model_id = mc_model_id message_data,
      m_token_count = None,
      m_created_at = utcnow env w\<rparr>"

definition add_message ::
  "collab \<Rightarrow> world \<Rightarrow> uuid \<Rightarrow> MessageCreate \<Rightarrow> (exn + Message) \<times> world" where
  "add_message env w conversation_id message_data =
     (let message = message_row env w conversation_id message_data;
          w1 = record_call (DbCommit message) w
      in case commit env w message of
           Some x \<Rightarrow> (Inl x, w1)
         | None \<Rightarrow>
             (let w2 = w1\<lparr>store := (store w1)\<lparr>messages := messages (store w1) @ [message]\<rparr>\<rparr>;
                  w3 = record_call (DbRefresh message) w2
              in case refresh env w2 message of
                   Some x \<Rightarrow> (Inl x, w3)
                 | None \<Rightarrow> (Inr message, w3)))"


subsection \<open>_get_enhanced_context\<close>

definition freshness_keywords :: "string list" where
  "freshness_keywords =
     [''latest'', ''current'', ''news'', ''today'', ''recent'', ''what's happening'', ''update'']"

definition market_keywords :: "string list" where
  "market_keywords =
     [''bitcoin'', ''btc'', ''ethereum'', ''eth'', ''crypto'', ''cryptocurrency'',
      ''binance'', ''trading'', ''price'', ''market'', ''coin'']"

text \<open>
  Each collaborator call sits in its own \<^verbatim>\<open>try ... except Exception as e\<close>, whose
  handler only prints: an \<open>Exception\<close> leaves the context as it was, anything else
  that the awaited call raises leaves the function at once.
\<close>

definition get_enhanced_context ::
  "collab \<Rightarrow> world \<Rightarrow> string \<Rightarrow> (exn + enhanced_context) \<times> world" where
  "get_enhanced_context env w user_message =
     (let context0 = \<lparr>web_search = None, crypto_data = None\<rparr>;
          searched =
             (if any_keyword freshness_keywords (lower (unicode_lower env) user_message) then
                (case search env w user_message 3 of
                   Inr search_results \<Rightarrow>
                     (Inr (context0\<lparr>web_search := Some search_results\<rparr>),
                      record_call (WebSearch user_message 3) w)
                 | Inl (Exception e) \<Rightarrow> (Inr context0, record_call (WebSearch user_message 3) w)
                 | Inl (BaseException n) \<Rightarrow>
                     (Inl (BaseException n), record_call (WebSearch user_message 3) w))
              else (Inr context0, w))
      in case searched of
           (Inl x, w1) \<Rightarrow> (Inl x, w1)
         | (Inr context1, w1) \<Rightarrow>
             (if any_keyword market_keywords (lower (unicode_lower env) user_message) then
                (case get_market_data env w1 of
                   Inr crypto \<Rightarrow>
                     (Inr (context1\<lparr>crypto_data := Some crypto\<rparr>), record_call MarketData w1)
                 | Inl (Exception e) \<Rightarrow> (Inr context1, record_call MarketData w1)
                 | Inl (BaseException n) \<Rightarrow> (Inl (BaseException n), record_call MarketData w1))
              else (Inr context1, w1)))"


subsection \<open>_prepare_messages and count_tokens\<close>

definition base_instruction :: string where
  "base_instruction = ''You are a helpful AI assistant with access to real-time information.''"

definition web_search_header :: string where
  "web_search_header = ''\<newline>\<newline>Current web search results:\<newline>''"

definition crypto_header :: string where
  "crypto_header = ''\<newline>\<newline>Current cryptocurrency market data:\<newline>''"

definition search_line :: "web_result \<Rightarrow> string" where
  "search_line result =
     ''- '' @ dict_get result ''title'' '''' @ '': '' @ dict_get result ''description'' ''''
       @ ''\<newline>''"

definition crypto_line :: "string \<times> ticker \<Rightarrow> string" where
  "crypto_line item =
     (case item of (symbol, data) \<Rightarrow>
        ''- '' @ symbol @ '': $'' @ dict_get data ''price'' ''N/A'' @ '' (24h change: ''
          @ dict_get data ''change'' ''N/A'' @ ''%)\<newline>'')"

text \<open>\<^verbatim>\<open>xs[-10:]\<close>: the last ten elements, all of them when there are fewer.\<close>

definition last10 :: "'a list \<Rightarrow> 'a list" where
  "last10 xs = drop (length xs - 10) xs"

text \<open>
  The first half of \<^verbatim>\<open>_prepare_messages\<close>: the base instruction, then a section for
  each of the two context entries that is present and not empty.
\<close>

definition system_content_of :: "enhanced_context \<Rightarrow> string" where
  "system_content_of ctx =
     (let system_content = base_instruction;
          system_content =
            (case web_search ctx of
               None \<Rightarrow> system_content
             | Some results \<Rightarrow>
                 if results = [] then system_content
                 else system_content
                        @ foldl (\<lambda>search_info result. search_info @ search_line result)
                            web_search_header results);
          system_content =
            (case crypto_data ctx of
               None \<Rightarrow> system_content
             | Some items \<Rightarrow>
                 if items = [] then system_content
                 else system_content
                        @ foldl (\<lambda>crypto_info item. crypto_info @ crypto_line item)
                            crypto_header items)
      in system_content)"

definition prepare_messages :: "Message list \<Rightarrow> string \<Rightarrow> enhanced_context \<Rightarrow> chat_message list" where
  "prepare_messages conversation_messages new_message ctx =
     [\<lparr>cm_role = RoleStr ''system'', cm_content = system_content_of ctx\<rparr>]
       @ map (\<lambda>msg. \<lparr>cm_role = RoleEnum (m_role msg), cm_content = m_content msg\<rparr>)
           (last10 conversation_messages)
       @ [\<lparr>cm_role = RoleStr ''user'', cm_content = new_message\<rparr>]"

text \<open>
  \<^verbatim>\<open>len(self.encoding.encode(text))\<close>; the tiktoken encoding is a parameter.
\<close>

definition count_tokens :: "(string \<Rightarrow> nat list) \<Rightarrow> string \<Rightarrow> nat" where
  "count_tokens encode text = length (encode text)"

text \<open>
  Modelled from the spec: the Token Accountant's estimate of a message list, which the
  sources do not have (they count one text only): the sum of \<open>count_tokens\<close> over the
  contents of the list.
\<close>

definition count_tokens_list :: "(string \<Rightarrow> nat list) \<Rightarrow> chat_message list \<Rightarrow> nat" where
  "count_tokens_list encode msgs = sum_list (map (\<lambda>m. count_tokens encode (cm_content m)) msgs)"


subsection \<open>Provider adapters\<close>

text \<open>
  \<^verbatim>\<open>async for chunk in stream: if chunk.choices[0].delta.content: yield ...\<close>:
  the texts yielded, and the exception that ended the loop, if any. A chunk without
  choices raises IndexError at \<^verbatim>\<open>choices[0]\<close>; a content that is None or empty
  is skipped.
\<close>

fun chunk_loop :: "chunk list \<Rightarrow> exn option \<Rightarrow> string list \<times> exn option" where
  "chunk_loop [] exc = ([], exc)"
| "chunk_loop (ch # rest) exc =
     (case choices ch of
        [] \<Rightarrow> ([], Some (Exception ''list index out of range''))
      | d # ds \<Rightarrow>
          (case chunk_loop rest exc of
             (ys, x) \<Rightarrow>
               (case d of
                  None \<Rightarrow> (ys, x)
                | Some t \<Rightarrow> if t = [] then (ys, x) else (t # ys, x))))"

definition groq_model_map :: "(string \<times> string) list" where
  "groq_model_map =
     [(''groq-llama-3.1-70b'', ''llama-3.1-70b-versatile''),
      (''groq-llama-3.1-8b'', ''llama-3.1-8b-instant''),
      (''groq-mixtral'', ''mixtral-8x7b-32768''),
      (''groq-gemma'', ''gemma-7b-it'')]"

text \<open>
  Each generator wraps the whole request in \<^verbatim>\<open>try ... except Exception as e\<close> and
  the handler yields the prefixed error text as one more chunk. \<open>except_yield\<close> is that
  handler, applied to what the body yielded and raised: an \<open>Exception\<close> becomes a last
  chunk and the generator finishes, anything else leaves the generator.
\<close>

definition except_yield :: "string \<Rightarrow> string list \<times> exn option \<Rightarrow> string list \<times> exn option" where
  "except_yield prefix body =
     (case body of
        (ys, Some (Exception e)) \<Rightarrow> (ys @ [prefix @ e], None)
      | (ys, other) \<Rightarrow> (ys, other))"

definition generate_groq_response ::
  "collab \<Rightarrow> world \<Rightarrow> chat_message list \<Rightarrow> string \<Rightarrow> (string list \<times> exn option) \<times> world" where
  "generate_groq_response env w msgs model_id =
     (let actual_model = dict_get groq_model_map model_id ''llama-3.1-70b-versatile'';
          w1 = record_call (GroqCreate actual_model msgs) w
      in (except_yield ''Error with Groq API: ''
            (case groq_create env w actual_model msgs of
               Inl x \<Rightarrow> ([], Some x)
             | Inr stream \<Rightarrow> chunk_loop (events stream) (raised stream)),
          w1))"

definition generate_openai_response ::
  "collab \<Rightarrow> world \<Rightarrow> chat_message list \<Rightarrow> string \<Rightarrow> (string list \<times> exn option) \<times> world" where
  "generate_openai_response env w msgs model_id =
     (let w1 = record_call (OpenAICreate model_id msgs) w
      in (except_yield ''Error: ''
            (case openai_create env w model_id msgs of
               Inl x \<Rightarrow> ([], Some x)
             | Inr stream \<Rightarrow> chunk_loop (events stream) (raised stream)),
          w1))"

text \<open>
  The conversion to Anthropic's format: the content of the last entry whose role is the
  string \<^verbatim>\<open>"system"\<close> becomes the system text, every other entry is kept.
\<close>

definition to_anthropic :: "chat_message list \<Rightarrow> string \<times> chat_message list" where
  "to_anthropic msgs =
     foldl (\<lambda>(system_message, anthropic_messages) msg.
              if cm_role msg = RoleStr ''system'' then (cm_content msg, anthropic_messages)
              else (system_message,
                    anthropic_messages @ [\<lparr>cm_role = cm_role msg, cm_content = cm_content msg\<rparr>]))
       ('''', []) msgs"

definition generate_anthropic_response ::
  "collab \<Rightarrow> world \<Rightarrow> chat_message list \<Rightarrow> string \<Rightarrow> (string list \<times> exn option) \<times> world" where
  "generate_anthropic_response env w msgs model_id =
     (case to_anthropic msgs of
        (system_message, anthropic_messages) \<Rightarrow>
          (let w1 = record_call (AnthropicCreate model_id system_message anthropic_messages) w
           in (except_yield ''Error: ''
                 (case anthropic_create env w model_id system_message anthropic_messages of
                    Inl x \<Rightarrow> ([], Some x)
                  | Inr stream \<Rightarrow>
                      (map delta_text
                         (filter (\<lambda>ev. ev_type ev = ''content_block_delta'') (events stream)),
                       raised stream)),
               w1)))"


subsection \<open>generate_ai_response\<close>

text \<open>
  The async generator: the chunks it yields, then the exception that leaves it, if any.
  It has no handler of its own: what loading the conversation or the enrichment raises
  leaves it before the first chunk, and so does what a provider generator lets
  through. A model id that no branch of the \<^verbatim>\<open>if/elif\<close> chain takes falls off its
  end and the generator finishes.
\<close>

definition generate_ai_response ::
  "collab \<Rightarrow> world \<Rightarrow> uuid \<Rightarrow> string \<Rightarrow> string \<Rightarrow> (string list \<times> exn option) \<times> world" where
  "generate_ai_response env w conversation_id user_message model_id =
     (let w1 = record_call (DbLoad conversation_id) w
      in case get_conversation_with_messages env w conversation_id of
           Inl x \<Rightarrow> (([], Some x), w1)
         | Inr conversation_messages \<Rightarrow>
             (case get_enhanced_context env w1 user_message of
                (Inl x, w2) \<Rightarrow> (([], Some x), w2)
              | (Inr enhanced, w2) \<Rightarrow>
                  (let msgs = prepare_messages conversation_messages user_message enhanced
                   in if startswith model_id ''gpt'' then
                        generate_openai_response env w2 msgs model_id
                      else if startswith model_id ''claude'' then
                        generate_anthropic_response env w2 msgs model_id
                      else if startswith model_id ''groq''
                              \<or> contains ''llama'' (lower (unicode_lower env) model_id) then
                        generate_groq_response env w2 msgs model_id
                      else (([], None), w2))))"


section \<open>The streaming endpoint (app/chat/router.py)\<close>

text \<open>
  The lines of the response: \<open>ContentEvent c\<close> is \<^verbatim>\<open>data: {"content": c}\<close>,
  \<open>ErrorEvent m\<close> is \<^verbatim>\<open>data: {"error": m}\<close> and \<open>DoneEvent\<close> is the literal
  \<^verbatim>\<open>data: [DONE]\<close>, each followed by an empty line.
\<close>

datatype wire_event = ContentEvent string | ErrorEvent string | DoneEvent

text \<open>\<^verbatim>\<open>MessageCreate(content=chat_request.message, role="user", model_id=...)\<close>\<close>

definition user_message_of :: "ChatRequest \<Rightarrow> MessageCreate" where
  "user_message_of chat_request =
     \<lparr>mc_content = rq_message chat_request,
      mc_role = USER,
      mc_model_id = Some (rq_model_id chat_request)\<rparr>"

definition error_event :: "string \<Rightarrow> wire_event" where
  "error_event e = ErrorEvent (''Error: '' @ e)"

text \<open>
  The chunks relayed when the client goes away during the loop: with \<open>n\<close> lines taken
  and more than \<open>n\<close> chunks to relay, the generator is closed at the yield of chunk
  \<open>n + 1\<close>. \<open>None\<close> when the loop runs to its end.
\<close>

definition closed_in_loop :: "nat option \<Rightarrow> string list \<Rightarrow> string list option" where
  "closed_in_loop gone ys =
     (case gone of
        None \<Rightarrow> None
      | Some n \<Rightarrow> if n < length ys then Some (take (Suc n) ys) else None)"

text \<open>
  \<^verbatim>\<open>generate_stream\<close>: the lines it yields, the exception that leaves it (if any), and
  the world afterwards. Its \<^verbatim>\<open>except Exception as e\<close> turns an \<open>Exception\<close> into an
  error line; a cancellation at an await or the closing of the generator at a yield is
  not caught, and the stream ends there without a terminal line.
\<close>

definition generate_stream ::
  "collab \<Rightarrow> ChatRequest \<Rightarrow> world \<Rightarrow> (wire_event list \<times> exn option) \<times> world" where
  "generate_stream env chat_request w =
     (let user_message = user_message_of chat_request
      in case add_message env w (rq_conversation_id chat_request) user_message of
           (Inl (Exception e), w1) \<Rightarrow> (([error_event e], None), w1)
         | (Inl (BaseException n), w1) \<Rightarrow> (([], Some (BaseException n)), w1)
         | (Inr saved, w1) \<Rightarrow>
             (case generate_ai_response env w1 (rq_conversation_id chat_request)
                     (rq_message chat_request) (rq_model_id chat_request) of
                ((ys, exc), w2) \<Rightarrow>
                  (case closed_in_loop (client_gone env) ys of
                     Some relayed \<Rightarrow>
                       ((map ContentEvent relayed, Some (BaseException ''GeneratorExit'')), w2)
                   | None \<Rightarrow>
                       (case exc of
                          Some (Exception e) \<Rightarrow> ((map ContentEvent ys @ [error_event e], None), w2)
                        | Some (BaseException n) \<Rightarrow>
                            ((map ContentEvent ys, Some (BaseException n)), w2)
                        | None \<Rightarrow>
                            (let full_content = concat ys;
                                 ai_message = \<lparr>mc_content = full_content,
                                               mc_role = ASSISTANT,
                                               mc_model_id = Some (rq_model_id chat_request)\<rparr>
                             in case add_message env w2 (rq_conversation_id chat_request)
                                       ai_message of
                                  (Inl (Exception e), w3) \<Rightarrow>
                                    ((map ContentEvent ys @ [error_event e], None), w3)
                                | (Inl (BaseException n), w3) \<Rightarrow>
                                    ((map ContentEvent ys, Some (BaseException n)), w3)
                                | (Inr saved', w3) \<Rightarrow>
                                    ((map ContentEvent ys @ [DoneEvent], None), w3))))))"


section \<open>Predicates used in the statements\<close>

text \<open>A terminal line of the stream: the literal \<^verbatim>\<open>data: [DONE]\<close> or an error event.\<close>

fun is_terminal :: "wire_event \<Rightarrow> bool" where
  "is_terminal (ContentEvent c) = False"
| "is_terminal (ErrorEvent m) = True"
| "is_terminal DoneEvent = True"

text \<open>
  The guards of the \<^verbatim>\<open>if/elif\<close> chain of \<^verbatim>\<open>generate_ai_response\<close>: the third
  branch (Groq) is taken when the first two are not and its own test holds; no branch
  is taken when all three tests fail.
\<close>

definition routes_to_groq :: "collab \<Rightarrow> string \<Rightarrow> bool" where
  "routes_to_groq env model_id =
     (\<not> startswith model_id ''gpt'' \<and> \<not> startswith model_id ''claude''
      \<and> (startswith model_id ''groq'' \<or> contains ''llama'' (lower (unicode_lower env) model_id)))"

definition unclaimed :: "collab \<Rightarrow> string \<Rightarrow> bool" where
  "unclaimed env model_id =
     (\<not> startswith model_id ''gpt'' \<and> \<not> startswith model_id ''claude''
      \<and> \<not> startswith model_id ''groq''
      \<and> \<not> contains ''llama'' (lower (unicode_lower env) model_id))"

text \<open>The calls that open a provider stream.\<close>

fun is_provider_call :: "call \<Rightarrow> bool" where
  "is_provider_call (OpenAICreate model msgs) = True"
| "is_provider_call (AnthropicCreate model system msgs) = True"
| "is_provider_call (GroqCreate model msgs) = True"
| "is_provider_call c = False"

text \<open>The calls that go over the network: the two enrichment services and the providers.\<close>

fun is_network_call :: "call \<Rightarrow> bool" where
  "is_network_call (WebSearch q n) = True"
| "is_network_call MarketData = True"
| "is_network_call c = is_provider_call c"

text \<open>
  The delta the loop yields for a chunk that has a choice: the content of the first
  choice, unless it is None or empty.
\<close>

definition delta_of :: "chunk \<Rightarrow> string list" where
  "delta_of ch =
     (case choices ch of
        [] \<Rightarrow> []
      | d # ds \<Rightarrow> (case d of None \<Rightarrow> [] | Some t \<Rightarrow> if t = [] then [] else [t]))"

text \<open>
  A call result that is an exception outside \<^verbatim>\<open>Exception\<close>; for a provider, also a
  stream that ends with one.
\<close>

fun raises_base :: "exn + 'a \<Rightarrow> bool" where
  "raises_base (Inl (BaseException n)) = True"
| "raises_base (Inl (Exception e)) = False"
| "raises_base (Inr r) = False"

fun interrupts :: "exn + 'e native_stream \<Rightarrow> bool" where
  "interrupts (Inl x) = raises_base (Inl x :: exn + unit)"
| "interrupts (Inr stream) =
     (case raised stream of None \<Rightarrow> False | Some x \<Rightarrow> raises_base (Inl x :: exn + unit))"

text \<open>The two enrichment services raise nothing outside \<^verbatim>\<open>Exception\<close>.\<close>

definition enrichment_uninterrupted :: "collab \<Rightarrow> bool" where
  "enrichment_uninterrupted env =
     ((\<forall>w q k. \<not> raises_base (search env w q k))
      \<and> (\<forall>w. \<not> raises_base (get_market_data env w)))"

text \<open>
  No call of a request is cancelled and the client reads to the end: no collaborator
  raises anything outside \<^verbatim>\<open>Exception\<close> and the generator is not closed early.
\<close>

definition uninterrupted :: "collab \<Rightarrow> bool" where
  "uninterrupted env =
     (client_gone env = None
      \<and> (\<forall>w m n. commit env w m \<noteq> Some (BaseException n))
      \<and> (\<forall>w m n. refresh env w m \<noteq> Some (BaseException n))
      \<and> (\<forall>w c. \<not> raises_base (get_conversation_with_messages env w c))
      \<and> enrichment_uninterrupted env
      \<and> (\<forall>w m ms. \<not> interrupts (openai_create env w m ms))
      \<and> (\<forall>w m s ms. \<not> interrupts (anthropic_create env w m s ms))
      \<and> (\<forall>w m ms. \<not> interrupts (groq_create env w m ms)))"


section \<open>Example inputs\<close>

text \<open>
  Collaborators that always succeed and have nothing to say, with a client that reads
  to the end.
\<close>

definition quiet :: collab where
  "quiet =
     \<lparr>uuid4 = (\<lambda>w. Suc (length (messages (store w)))),
      utcnow = (\<lambda>w. 200 + length (calls w)),
      unicode_lower = (\<lambda>s. s),
      commit = (\<lambda>w m. None),
      refresh = (\<lambda>w m. None),
      get_conversation_with_messages =
        (\<lambda>w cid. Inr (filter (\<lambda>m. m_conversation_id m = cid) (messages (store w)))),
      search = (\<lambda>w q n. Inr []),
      get_market_data = (\<lambda>w. Inr []),
      openai_create = (\<lambda>w model msgs. Inr \<lparr>events = [], raised = None\<rparr>),
      anthropic_create = (\<lambda>w model sys msgs. Inr \<lparr>events = [], raised = None\<rparr>),
      groq_create = (\<lambda>w model msgs. Inr \<lparr>events = [], raised = None\<rparr>),
      client_gone = None\<rparr>"

text \<open>One conversation, created and last updated at time 100, without messages.\<close>

definition world0 :: world where
  "world0 =
     \<lparr>store = \<lparr>conversations =
                  [\<lparr>c_id = 1, c_title = ''Chat'', c_user_id = 7, c_model_id = ''gpt-4'',
                    c_created_at = 100, c_updated_at = 100\<rparr>],
                messages = []\<rparr>,
      calls = []\<rparr>"

definition btc_market :: "(string \<times> ticker) list" where
  "btc_market = [(''BTCUSDT'', [(''price'', ''50000.0''), (''change'', ''1.5'')])]"


text \<open>The search service raises a timeout error, the market service answers.\<close>

definition search_down :: collab where
  "search_down =
     quiet\<lparr>search := (\<lambda>w q n. Inl (Exception ''timeout'')),
           get_market_data := (\<lambda>w. Inr btc_market)\<rparr>"

text \<open>The search call is cancelled, the market service would answer.\<close>

definition search_cancelled :: collab where
  "search_cancelled =
     quiet\<lparr>search := (\<lambda>w q n. Inl (BaseException ''CancelledError'')),
           get_market_data := (\<lambda>w. Inr btc_market)\<rparr>"



text \<open>A tokenizer that makes every character one token.\<close>

definition char_tokens :: "string \<Rightarrow> nat list" where
  "char_tokens text = map of_char text"

definition two_stored :: "Message list" where
  "two_stored =
     [\<lparr>m_id = 1, m_content = ''hello'', m_role = USER, m_conversation_id = 1,
       m_model_id = None, m_token_count = None, m_created_at = 101\<rparr>,
      \<lparr>m_id = 2, m_content = ''world'', m_role = ASSISTANT, m_conversation_id = 1,
       m_model_id = None, m_token_count = None, m_created_at = 102\<rparr>]"

definition no_context :: enhanced_context where
  "no_context = \<lparr>web_search = None, crypto_data = None\<rparr>"

text \<open>
  The OpenAI stream delivers two deltas, with an empty one between them, and then
  raises an error; or the call raises at once.
\<close>

definition hello_then_error :: collab where
  "hello_then_error =
     quiet\<lparr>openai_create :=
       (\<lambda>w model msgs.
          Inr \<lparr>events = [\<lparr>choices = [Some ''Hello'']\<rparr>, \<lparr>choices = [None]\<rparr>,
                         \<lparr>choices = [Some '' there'']\<rparr>],
               raised = Some (Exception ''boom'')\<rparr>)\<rparr>"

definition error_at_once :: collab where
  "error_at_once = quiet\<lparr>openai_create := (\<lambda>w model msgs. Inl (Exception ''boom''))\<rparr>"

text \<open>The same stream, with the assistant message's commit raising.\<close>

definition hello_then_error_store_down :: collab where
  "hello_then_error_store_down =
     hello_then_error\<lparr>commit := (\<lambda>w m. if m_role m = ASSISTANT then Some (Exception ''disk full'')
                                       else None)\<rparr>"

text \<open>The OpenAI stream delivers one delta and the task is cancelled while it waits.\<close>

definition cancelled_midstream :: collab where
  "cancelled_midstream =
     quiet\<lparr>openai_create :=
       (\<lambda>w model msgs.
          Inr \<lparr>events = [\<lparr>choices = [Some ''Hello'']\<rparr>],
               raised = Some (BaseException ''CancelledError'')\<rparr>)\<rparr>"

text \<open>The OpenAI stream delivers two deltas and ends; the client is gone at the first line.\<close>

definition client_leaves :: collab where
  "client_leaves =
     quiet\<lparr>openai_create :=
             (\<lambda>w model msgs.
                Inr \<lparr>events = [\<lparr>choices = [Some ''Hello'']\<rparr>, \<lparr>choices = [Some '' there'']\<rparr>],
                     raised = None\<rparr>),
           client_gone := Some 0\<rparr>"

text \<open>The Groq stream delivers one delta and ends.\<close>

definition groq_hi :: collab where
  "groq_hi =
     quiet\<lparr>groq_create :=
       (\<lambda>w model msgs. Inr \<lparr>events = [\<lparr>choices = [Some ''Hi'']\<rparr>], raised = None\<rparr>)\<rparr>"

definition request :: "string \<Rightarrow> string \<Rightarrow> ChatRequest" where
  "request text model = \<lparr>rq_message = text, rq_conversation_id = 1, rq_model_id = model\<rparr>"

text \<open>Loading the conversation raises.\<close>

definition load_down :: collab where
  "load_down =
     quiet\<lparr>get_conversation_with_messages := (\<lambda>w cid. Inl (Exception ''connection lost''))\<rparr>"

text \<open>Committing raises.\<close>

definition commit_down :: collab where
  "commit_down = quiet\<lparr>commit := (\<lambda>w m. Some (Exception ''disk full''))\<rparr>"

text \<open>
  The store in the middle of a first request on conversation 1: its user message is
  persisted, its generation has not started.
\<close>

definition first_in_flight :: world where
  "first_in_flight =
     snd (add_message groq_hi world0 1 (user_message_of (request ''first'' ''groq-mixtral'')))"


section \<open>Appending a message\<close>

lemma add_message_calls:
  "\<exists>rest. calls (snd (add_message env w cid md))
            = calls w @ DbCommit (message_row env w cid md) # rest
        \<and> (commit env w (message_row env w cid md) \<noteq> None \<longrightarrow> rest = [])
        \<and> (\<forall>c \<in> set rest. \<not> is_network_call c)"
  by (simp add: add_message_def record_call_def Let_def split: option.splits)

lemma add_message_store:
  "store (snd (add_message env w cid md))
     = (if commit env w (message_row env w cid md) = None
        then (store w)\<lparr>messages := messages (store w) @ [message_row env w cid md]\<rparr>
        else store w)"
  by (simp add: add_message_def record_call_def Let_def split: option.splits)

lemma add_message_Inr:
  "fst (add_message env w cid md) = Inr m \<Longrightarrow>
     m = message_row env w cid md \<and> commit env w m = None"
  by (auto simp add: add_message_def record_call_def Let_def split: option.splits)

lemma add_message_ok:
  "commit env w (message_row env w cid md) = None \<Longrightarrow>
   refresh env
     ((record_call (DbCommit (message_row env w cid md)) w)
        \<lparr>store := (store w)\<lparr>messages := messages (store w) @ [message_row env w cid md]\<rparr>\<rparr>)
     (message_row env w cid md) = None \<Longrightarrow>
   add_message env w cid md =
     (Inr (message_row env w cid md),
      \<lparr>store = (store w)\<lparr>messages := messages (store w) @ [message_row env w cid md]\<rparr>,
       calls = calls w @ [DbCommit (message_row env w cid md), DbRefresh (message_row env w cid md)]\<rparr>)"
  by (simp add: add_message_def record_call_def Let_def)

text \<open>
  Claim C9, as amended. Appending a message leaves the conversations table as it was:
  every field of every conversation, the updated-at field included, keeps its value.
  \<^verbatim>\<open>add_message\<close> inserts a message row and writes nothing else, and the
  \<^verbatim>\<open>onupdate\<close> default of \<^verbatim>\<open>updated_at\<close> only fires when the conversation row
  itself is updated.
\<close>

theorem add_message_keeps_conversations:
  "conversations (store (snd (add_message env w conversation_id message_data)))
     = conversations (store w)"
  by (simp add: add_message_store)

text \<open>
  Claim C9 as stated fails: a message appended at time 200 to the conversation last
  updated at time 100 is stored with created-at 200, and the conversation's updated-at
  is still 100.
\<close>

theorem add_message_updated_at_counterexample:
  "(case add_message quiet world0 1 \<lparr>mc_content = ''hi'', mc_role = USER, mc_model_id = None\<rparr> of
      (Inr m, w') \<Rightarrow>
        m_created_at m = 200 \<and> map c_updated_at (conversations (store w')) = [100]
    | (Inl e, w') \<Rightarrow> False)"
  by (simp add: add_message_def message_row_def record_call_def quiet_def world0_def Let_def)


section \<open>Enrichment\<close>

lemma get_enhanced_context_store:
  "store (snd (get_enhanced_context env w user_message)) = store w"
  by (simp add: get_enhanced_context_def record_call_def Let_def
        split: sum.splits exn.splits)

lemma get_enhanced_context_calls:
  "\<exists>rest. calls (snd (get_enhanced_context env w user_message)) = calls w @ rest
      \<and> (\<forall>c \<in> set rest. \<not> is_provider_call c)"
  by (simp add: get_enhanced_context_def record_call_def Let_def
        split: sum.splits exn.splits)

lemma raises_base_iff: "raises_base r \<longleftrightarrow> (\<exists>n. r = Inl (BaseException n))"
  by (cases r rule: raises_base.cases) simp_all

text \<open>
  What enrichment returns when neither awaited call is cancelled: the calls it made
  and the sections it filled.
\<close>

lemma get_enhanced_context_returns:
  assumes "\<not> raises_base (search env w user_message 3)"
    and "\<not> raises_base
            (get_market_data env
               (if any_keyword freshness_keywords (lower (unicode_lower env) user_message)
                then record_call (WebSearch user_message 3) w else w))"
  shows "get_enhanced_context env w user_message =
     (Inr \<lparr>web_search =
             (if any_keyword freshness_keywords (lower (unicode_lower env) user_message)
              then (case search env w user_message 3 of Inr r \<Rightarrow> Some r | Inl e \<Rightarrow> None)
              else None),
           crypto_data =
             (if any_keyword market_keywords (lower (unicode_lower env) user_message)
              then (case get_market_data env
                           (if any_keyword freshness_keywords
                                 (lower (unicode_lower env) user_message)
                            then record_call (WebSearch user_message 3) w else w) of
                      Inr r \<Rightarrow> Some r | Inl e \<Rightarrow> None)
              else None)\<rparr>,
      w\<lparr>calls := calls w
            @ (if any_keyword freshness_keywords (lower (unicode_lower env) user_message)
               then [WebSearch user_message 3] else [])
            @ (if any_keyword market_keywords (lower (unicode_lower env) user_message)
               then [MarketData] else [])\<rparr>)"
proof (cases "any_keyword freshness_keywords (lower (unicode_lower env) user_message)")
  case True
  with assms show ?thesis
    by (cases "search env w user_message 3" rule: raises_base.cases;
        cases "get_market_data env (record_call (WebSearch user_message 3) w)"
          rule: raises_base.cases)
       (simp_all add: get_enhanced_context_def record_call_def Let_def)
next
  case False
  with assms show ?thesis
    by (cases "get_market_data env w" rule: raises_base.cases)
       (simp_all add: get_enhanced_context_def record_call_def Let_def)
qed

lemma get_enhanced_context_Inr:
  assumes "enrichment_uninterrupted env"
  shows "\<exists>ctx. fst (get_enhanced_context env w user_message) = Inr ctx"
  using assms get_enhanced_context_returns [of env w user_message]
  by (simp add: enrichment_uninterrupted_def)

text \<open>
  Claim C7, as amended. For every user text and every behaviour of the search and
  market-data collaborators in which what they raise is an instance of
  \<^verbatim>\<open>Exception\<close>, enrichment returns a context and raises nothing. The
  \<^verbatim>\<open>web_search\<close> section is present exactly when the freshness vocabulary matched
  and the search call returned, the \<^verbatim>\<open>crypto_data\<close> section exactly when the market
  vocabulary matched and the market call returned: a failing call omits its own
  section only.
\<close>

theorem get_enhanced_context_absorbs_exceptions:
  assumes "\<not> raises_base (search env w user_message 3)"
    and "\<not> raises_base
            (get_market_data env
               (if any_keyword freshness_keywords (lower (unicode_lower env) user_message)
                then record_call (WebSearch user_message 3) w else w))"
  shows "\<exists>ctx w'. get_enhanced_context env w user_message = (Inr ctx, w')
     \<and> web_search ctx =
         (if any_keyword freshness_keywords (lower (unicode_lower env) user_message)
          then (case search env w user_message 3 of Inr r \<Rightarrow> Some r | Inl e \<Rightarrow> None)
          else None)
     \<and> crypto_data ctx =
         (if any_keyword market_keywords (lower (unicode_lower env) user_message)
          then (case get_market_data env
                       (if any_keyword freshness_keywords (lower (unicode_lower env) user_message)
                        then record_call (WebSearch user_message 3) w else w) of
                  Inr r \<Rightarrow> Some r | Inl e \<Rightarrow> None)
          else None)"
  using get_enhanced_context_returns [OF assms] by simp

lemma latest_bitcoin_news_keywords:
  "any_keyword freshness_keywords (lower ul ''latest bitcoin news'')"
  "any_keyword market_keywords (lower ul ''latest bitcoin news'')"
  by (simp_all add: any_keyword_def freshness_keywords_def market_keywords_def lower_def
        lower_char_def is_ascii_def)

text \<open>
  Witness for C7: the text matches both vocabularies, the search raises a timeout error
  and the market call answers; the context holds the market data and no search section.
\<close>

theorem get_enhanced_context_absorbs_exceptions_witness:
  "\<not> raises_base (search search_down world0 ''latest bitcoin news'' 3)
   \<and> \<not> raises_base
         (get_market_data search_down (record_call (WebSearch ''latest bitcoin news'' 3) world0))
   \<and> (\<exists>ctx w'. get_enhanced_context search_down world0 ''latest bitcoin news'' = (Inr ctx, w')
         \<and> web_search ctx = None \<and> crypto_data ctx = Some btc_market)"
proof -
  have s: "\<not> raises_base (search search_down world0 ''latest bitcoin news'' 3)"
    by (simp add: search_down_def quiet_def)
  have m: "\<not> raises_base
             (get_market_data search_down
                (if any_keyword freshness_keywords
                      (lower (unicode_lower search_down) ''latest bitcoin news'')
                 then record_call (WebSearch ''latest bitcoin news'' 3) world0 else world0))"
    by (simp add: search_down_def quiet_def)
  show ?thesis
    using get_enhanced_context_absorbs_exceptions [OF s m] s m
    by (simp add: latest_bitcoin_news_keywords search_down_def quiet_def)
qed

text \<open>
  Claim C7 as stated fails. The handlers are \<^verbatim>\<open>except Exception\<close>: when the awaited
  search call is cancelled, the \<^verbatim>\<open>CancelledError\<close> leaves enrichment, and the market
  data, which would have been returned, is not fetched.
\<close>

theorem get_enhanced_context_counterexample:
  "get_enhanced_context search_cancelled world0 ''latest bitcoin news''
     = (Inl (BaseException ''CancelledError''),
        record_call (WebSearch ''latest bitcoin news'' 3) world0)"
  by (simp add: get_enhanced_context_def latest_bitcoin_news_keywords search_cancelled_def
        quiet_def Let_def)


section \<open>Prompt assembly\<close>












text \<open>
  Claim C1 fails on the code. \<^verbatim>\<open>_prepare_messages\<close> takes no token limit and never
  calls \<^verbatim>\<open>count_tokens\<close>, although its own comment says that the history is limited
  by token count. With one token per character, the system message and the new user
  message take 70 tokens, which fits a limit of 70; dropping the two stored messages
  would meet the limit, yet both are kept and the estimate of the list is 80.
\<close>

theorem prepare_messages_ignores_token_limit:
  "count_tokens_list char_tokens (prepare_messages two_stored ''hi'' no_context) = 80
   \<and> \<not> count_tokens_list char_tokens (prepare_messages two_stored ''hi'' no_context) \<le> 70
   \<and> length (prepare_messages two_stored ''hi'' no_context) = 4
   \<and> count_tokens_list char_tokens
        [\<lparr>cm_role = RoleStr ''system'', cm_content = system_content_of no_context\<rparr>,
         \<lparr>cm_role = RoleStr ''user'', cm_content = ''hi''\<rparr>] \<le> 70"
  by (simp add: prepare_messages_def last10_def count_tokens_list_def count_tokens_def
        char_tokens_def two_stored_def no_context_def system_content_of_def base_instruction_def)

section \<open>The generators\<close>

lemma chunk_loop_base:
  "snd (chunk_loop evs exc) = Some (BaseException n) \<Longrightarrow> exc = Some (BaseException n)"
  by (induction evs) (auto split: list.splits prod.splits option.splits if_splits)

lemma except_yield_snd:
  "snd (except_yield prefix body) =
     (case snd body of Some (BaseException n) \<Rightarrow> Some (BaseException n) | other \<Rightarrow> None)"
  by (cases body) (simp add: except_yield_def split: option.splits exn.splits)

lemma generate_openai_response_world:
  "snd (generate_openai_response env w msgs model_id)
     = record_call (OpenAICreate model_id msgs) w"
  by (simp add: generate_openai_response_def Let_def)

lemma generate_groq_response_world:
  "snd (generate_groq_response env w msgs model_id)
     = record_call
         (GroqCreate (dict_get groq_model_map model_id ''llama-3.1-70b-versatile'') msgs) w"
  by (simp add: generate_groq_response_def Let_def)

lemma generate_anthropic_response_world:
  "snd (generate_anthropic_response env w msgs model_id)
     = record_call
         (AnthropicCreate model_id (fst (to_anthropic msgs)) (snd (to_anthropic msgs))) w"
  by (simp add: generate_anthropic_response_def Let_def case_prod_unfold)

lemma record_call_store: "store (record_call c w) = store w"
  by (simp add: record_call_def)

lemma record_call_calls: "calls (record_call c w) = calls w @ [c]"
  by (simp add: record_call_def)

lemma generate_ai_response_store:
  "store (snd (generate_ai_response env w cid user_text model_id)) = store w"
  using get_enhanced_context_store [of env "record_call (DbLoad cid) w" user_text]
  by (simp add: generate_ai_response_def Let_def case_prod_unfold record_call_store
        generate_openai_response_world generate_groq_response_world
        generate_anthropic_response_world split: sum.splits)

lemma generate_ai_response_calls:
  "\<exists>rest. calls (snd (generate_ai_response env w cid user_text model_id))
            = calls w @ DbLoad cid # rest"
  using get_enhanced_context_calls [of env "record_call (DbLoad cid) w" user_text]
  by (auto simp add: generate_ai_response_def Let_def case_prod_unfold record_call_calls
        generate_openai_response_world generate_groq_response_world
        generate_anthropic_response_world split: sum.splits)

text \<open>Without a cancellation, no provider generator lets an exception through.\<close>

lemma interrupts_iff:
  "interrupts r \<longleftrightarrow>
     (\<exists>n. r = Inl (BaseException n)) \<or> (\<exists>s n. r = Inr s \<and> raised s = Some (BaseException n))"
  by (cases r rule: interrupts.cases)
     (auto simp add: raises_base_iff split: option.splits)

lemma chunk_body_quiet:
  assumes "\<not> interrupts r"
  shows "snd (except_yield prefix
                (case r of Inl x \<Rightarrow> ([], Some x)
                 | Inr stream \<Rightarrow> chunk_loop (events stream) (raised stream))) = None"
proof (cases r)
  case (Inl x)
  with assms show ?thesis
    by (cases x) (simp_all add: except_yield_def)
next
  case (Inr stream)
  have "\<And>n. snd (chunk_loop (events stream) (raised stream)) \<noteq> Some (BaseException n)"
    using assms Inr chunk_loop_base [of "events stream" "raised stream"]
    by (auto simp add: interrupts_iff)
  then show ?thesis
    using Inr by (simp add: except_yield_snd split: option.splits exn.splits)
qed

lemma generate_openai_response_quiet:
  "\<not> interrupts (openai_create env w model_id msgs) \<Longrightarrow>
     snd (fst (generate_openai_response env w msgs model_id)) = None"
  by (simp add: generate_openai_response_def Let_def chunk_body_quiet)

lemma generate_groq_response_quiet:
  "\<not> interrupts (groq_create env w
                    (dict_get groq_model_map model_id ''llama-3.1-70b-versatile'') msgs) \<Longrightarrow>
     snd (fst (generate_groq_response env w msgs model_id)) = None"
  by (simp add: generate_groq_response_def Let_def chunk_body_quiet)

lemma generate_anthropic_response_quiet:
  assumes "\<not> interrupts (anthropic_create env w model_id
                            (fst (to_anthropic msgs)) (snd (to_anthropic msgs)))"
  shows "snd (fst (generate_anthropic_response env w msgs model_id)) = None"
proof (cases "anthropic_create env w model_id (fst (to_anthropic msgs)) (snd (to_anthropic msgs))")
  case (Inl x)
  with assms show ?thesis
    by (cases x)
       (simp_all add: generate_anthropic_response_def Let_def case_prod_unfold except_yield_def)
next
  case (Inr stream)
  with assms show ?thesis
    by (auto simp add: generate_anthropic_response_def Let_def case_prod_unfold
          except_yield_snd interrupts_iff split: option.splits exn.splits)
qed

lemma generate_ai_response_uninterrupted:
  assumes "uninterrupted env"
  shows "snd (fst (generate_ai_response env w cid user_text model_id)) \<noteq> Some (BaseException n)"
proof -
  have load: "\<not> raises_base (get_conversation_with_messages env w cid)"
    and enrich: "enrichment_uninterrupted env"
    and o: "\<And>w m ms. \<not> interrupts (openai_create env w m ms)"
    and a: "\<And>w m s ms. \<not> interrupts (anthropic_create env w m s ms)"
    and g: "\<And>w m ms. \<not> interrupts (groq_create env w m ms)"
    using assms by (simp_all add: uninterrupted_def)
  obtain ctx where ctx: "fst (get_enhanced_context env (record_call (DbLoad cid) w) user_text) = Inr ctx"
    using get_enhanced_context_Inr [OF enrich] by blast
  show ?thesis
    using load ctx
    by (auto simp add: generate_ai_response_def Let_def case_prod_unfold raises_base_iff
          generate_openai_response_quiet [OF o] generate_groq_response_quiet [OF g]
          generate_anthropic_response_quiet [OF a] split: sum.splits)
qed

lemma filter_terminal_content: "filter is_terminal (map ContentEvent ys) = []"
  by (induction ys) simp_all


section \<open>The wire stream\<close>

lemma add_message_Inl:
  "fst (add_message env w cid md) = Inl x \<Longrightarrow>
     (\<exists>w' m. commit env w' m = Some x) \<or> (\<exists>w' m. refresh env w' m = Some x)"
  by (auto simp add: add_message_def Let_def split: option.splits)

lemma generate_stream_uninterrupted:
  assumes "uninterrupted env"
  shows "snd (fst (generate_stream env chat_request w)) = None"
proof -
  let ?cid = "rq_conversation_id chat_request"
  let ?A = "add_message env w ?cid (user_message_of chat_request)"
  let ?G = "generate_ai_response env (snd ?A) ?cid (rq_message chat_request)
              (rq_model_id chat_request)"
  let ?B = "add_message env (snd ?G) ?cid
              \<lparr>mc_content = concat (fst (fst ?G)), mc_role = ASSISTANT,
               mc_model_id = Some (rq_model_id chat_request)\<rparr>"
  have gone: "client_gone env = None"
    and c: "\<And>w m n. commit env w m \<noteq> Some (BaseException n)"
    and r: "\<And>w m n. refresh env w m \<noteq> Some (BaseException n)"
    using assms by (simp_all add: uninterrupted_def)
  have add: "\<And>w cid md n. fst (add_message env w cid md) \<noteq> Inl (BaseException n)"
    using add_message_Inl c r by blast
  have a: "\<And>n. fst ?A \<noteq> Inl (BaseException n)" and b: "\<And>n. fst ?B \<noteq> Inl (BaseException n)"
    using add by blast+
  have g: "\<And>n. snd (fst ?G) \<noteq> Some (BaseException n)"
    using generate_ai_response_uninterrupted [OF assms] by blast
  show ?thesis
    using a b g
    by (simp add: generate_stream_def Let_def case_prod_unfold closed_in_loop_def gone
          split: sum.splits exn.splits option.splits)
qed

text \<open>
  Claim C5 as stated fails. When the task is cancelled while it waits for the next
  chunk, or the client goes away and the generator is closed at a yield, the exception
  is outside \<^verbatim>\<open>Exception\<close> and no handler catches it: the stream is the chunks
  relayed so far, without a terminal line, and no assistant message is stored.
\<close>

theorem generate_stream_terminal_counterexample:
  "fst (generate_stream cancelled_midstream (request ''hi'' ''gpt-4'') world0)
     = ([ContentEvent ''Hello''], Some (BaseException ''CancelledError''))
   \<and> fst (generate_stream client_leaves (request ''hi'' ''gpt-4'') world0)
       = ([ContentEvent ''Hello''], Some (BaseException ''GeneratorExit''))
   \<and> filter is_terminal [ContentEvent ''Hello''] = []
   \<and> map m_role
        (messages (store (snd (generate_stream client_leaves (request ''hi'' ''gpt-4'') world0))))
       = [USER]"
  by (simp add: generate_stream_def generate_ai_response_def generate_openai_response_def
        except_yield_def closed_in_loop_def add_message_def message_row_def
        user_message_of_def request_def cancelled_midstream_def client_leaves_def quiet_def
        world0_def record_call_def get_enhanced_context_def any_keyword_def
        freshness_keywords_def market_keywords_def lower_def lower_char_def is_ascii_def
        Let_def)

text \<open>
  Claim C5, as amended. For every request in which no call is cancelled and the client
  reads to the end (nothing outside \<^verbatim>\<open>Exception\<close> is raised), the lines of the
  stream are the content events of the chunks the generator yielded, in the order it
  yielded them, followed by exactly one terminal line: the literal
  \<^verbatim>\<open>data: [DONE]\<close> or an error event. In every request the stream holds at most one
  terminal line, and the content events before it are an initial part of the chunks in
  their order; a request ended by an exception outside \<^verbatim>\<open>Exception\<close> has content
  events only.
\<close>

theorem generate_stream_terminal:
  "(uninterrupted env \<longrightarrow> snd (fst (generate_stream env chat_request w)) = None)
   \<and> length (filter is_terminal (fst (fst (generate_stream env chat_request w)))) \<le> 1
   \<and> (\<exists>ys k.
        (case snd (fst (generate_stream env chat_request w)) of
           None \<Rightarrow>
             (\<exists>t. fst (fst (generate_stream env chat_request w)) = map ContentEvent ys @ [t]
                  \<and> is_terminal t
                  \<and> length (filter is_terminal (fst (fst (generate_stream env chat_request w))))
                      = 1)
         | Some x \<Rightarrow>
             fst (fst (generate_stream env chat_request w)) = map ContentEvent ys
             \<and> (\<exists>n. x = BaseException n))
      \<and> ys = (case add_message env w (rq_conversation_id chat_request)
                      (user_message_of chat_request) of
                 (Inl x, w1) \<Rightarrow> []
               | (Inr saved, w1) \<Rightarrow>
                   take k (fst (fst (generate_ai_response env w1 (rq_conversation_id chat_request)
                                       (rq_message chat_request) (rq_model_id chat_request)))))
      \<and> (snd (fst (generate_stream env chat_request w)) = None
           \<longrightarrow> ys = (case add_message env w (rq_conversation_id chat_request)
                             (user_message_of chat_request) of
                        (Inl x, w1) \<Rightarrow> []
                      | (Inr saved, w1) \<Rightarrow>
                          fst (fst (generate_ai_response env w1 (rq_conversation_id chat_request)
                                      (rq_message chat_request) (rq_model_id chat_request))))))"
proof -
  let ?cid = "rq_conversation_id chat_request"
  let ?A = "add_message env w ?cid (user_message_of chat_request)"
  let ?G = "generate_ai_response env (snd ?A) ?cid (rq_message chat_request)
              (rq_model_id chat_request)"
  let ?ys = "fst (fst ?G)"
  let ?R = "fst (generate_stream env chat_request w)"
  have first: "uninterrupted env \<longrightarrow> snd ?R = None"
    using generate_stream_uninterrupted by blast
  have shape:
    "(\<exists>x. fst ?A = Inl x) \<and> ((\<exists>n. ?R = ([], Some (BaseException n)))
                               \<or> (\<exists>e. ?R = ([ErrorEvent e], None)))
     \<or> (\<exists>m. fst ?A = Inr m)
        \<and> ((\<exists>k n. ?R = (map ContentEvent (take k ?ys), Some (BaseException n)))
           \<or> (\<exists>t. is_terminal t \<and> ?R = (map ContentEvent ?ys @ [t], None)))"
  proof (cases "fst ?A")
    case (Inl x)
    then show ?thesis
      by (cases x)
         (simp_all add: generate_stream_def Let_def case_prod_unfold error_event_def
            split: sum.splits)
  next
    case (Inr m)
    have "(\<exists>k n. ?R = (map ContentEvent (take k ?ys), Some (BaseException n)))
           \<or> (\<exists>t. is_terminal t \<and> ?R = (map ContentEvent ?ys @ [t], None))"
    proof (cases "closed_in_loop (client_gone env) ?ys")
      case (Some relayed)
      then obtain k where "relayed = take k ?ys"
        by (auto simp add: closed_in_loop_def split: option.splits if_splits)
      with Some Inr show ?thesis
        by (auto simp add: generate_stream_def Let_def case_prod_unfold)
    next
      case None
      show ?thesis
      proof (cases "snd (fst ?G)")
        case (Some x)
        with None Inr show ?thesis
          by (cases x)
             (auto simp add: generate_stream_def Let_def case_prod_unfold error_event_def
                intro: exI [of _ "length ?ys"])
      next
        case none: None
        with None Inr show ?thesis
          by (auto simp add: generate_stream_def Let_def case_prod_unfold error_event_def
                split: sum.splits exn.splits intro: exI [of _ "length ?ys"])
      qed
    qed
    with Inr show ?thesis by blast
  qed
  from shape show ?thesis
  proof (elim disjE conjE exE)
    fix x n assume "fst ?A = Inl x" "?R = ([], Some (BaseException n))"
    then show ?thesis using first by (simp add: case_prod_unfold)
  next
    fix x e assume "fst ?A = Inl x" "?R = ([ErrorEvent e], None)"
    then show ?thesis using first by (simp add: case_prod_unfold)
  next
    fix m k n assume "fst ?A = Inr m"
      "?R = (map ContentEvent (take k ?ys), Some (BaseException n))"
    then show ?thesis
      using first by (auto simp add: case_prod_unfold filter_terminal_content)
  next
    fix m t assume "fst ?A = Inr m" "is_terminal t" "?R = (map ContentEvent ?ys @ [t], None)"
    then show ?thesis
      using first
      by (auto simp add: case_prod_unfold filter_terminal_content intro: exI [of _ "length ?ys"])
  qed
qed

lemma uninterrupted_groq_hi: "uninterrupted groq_hi"
  by (simp add: uninterrupted_def enrichment_uninterrupted_def groq_hi_def quiet_def)

text \<open>
  Witness for C5: nothing is cancelled, the Groq stream delivers one delta, and the
  stream is its content event followed by \<^verbatim>\<open>data: [DONE]\<close>.
\<close>

theorem generate_stream_terminal_witness:
  "uninterrupted groq_hi
   \<and> snd (fst (generate_stream groq_hi (request ''hello'' ''groq-mixtral'') world0)) = None
   \<and> fst (fst (generate_stream groq_hi (request ''hello'' ''groq-mixtral'') world0))
       = [ContentEvent ''Hi'', DoneEvent]"
proof -
  have wire: "fst (fst (generate_stream groq_hi (request ''hello'' ''groq-mixtral'') world0))
                = [ContentEvent ''Hi'', DoneEvent]"
    by (simp add: generate_stream_def generate_ai_response_def generate_groq_response_def
          except_yield_def closed_in_loop_def groq_model_map_def dict_get_def add_message_def
          message_row_def user_message_of_def request_def groq_hi_def quiet_def world0_def
          record_call_def get_enhanced_context_def any_keyword_def freshness_keywords_def
          market_keywords_def lower_def lower_char_def is_ascii_def Let_def)
  show ?thesis
    using generate_stream_terminal [of groq_hi "request ''hello'' ''groq-mixtral''" world0]
      uninterrupted_groq_hi wire
    by simp
qed

lemma message_row_fields:
  "m_content (message_row env w cid md) = mc_content md"
  "m_role (message_row env w cid md) = mc_role md"
  "m_conversation_id (message_row env w cid md) = cid"
  by (simp_all add: message_row_def)

text \<open>
  Claim C6. The first call the endpoint makes is the commit of the user's message (its
  text, role \<^verbatim>\<open>user\<close>, the request's conversation), so every provider call and
  every other external call comes after it. When that commit succeeds the message is
  in the store at the end of the request, whatever fails downstream; when it raises, no
  other call is made.
\<close>

theorem user_message_persisted_first:
  "\<exists>rest.
     calls (snd (generate_stream env rq w))
       = calls w @ DbCommit (message_row env w (rq_conversation_id rq) (user_message_of rq)) # rest
     \<and> m_content (message_row env w (rq_conversation_id rq) (user_message_of rq)) = rq_message rq
     \<and> m_role (message_row env w (rq_conversation_id rq) (user_message_of rq)) = USER
     \<and> m_conversation_id (message_row env w (rq_conversation_id rq) (user_message_of rq))
         = rq_conversation_id rq
     \<and> (commit env w (message_row env w (rq_conversation_id rq) (user_message_of rq)) = None
          \<longrightarrow> message_row env w (rq_conversation_id rq) (user_message_of rq)
                \<in> set (messages (store (snd (generate_stream env rq w)))))
     \<and> (commit env w (message_row env w (rq_conversation_id rq) (user_message_of rq)) \<noteq> None
          \<longrightarrow> rest = [])"
proof -
  let ?cid = "rq_conversation_id rq"
  let ?um = "message_row env w ?cid (user_message_of rq)"
  let ?A = "add_message env w ?cid (user_message_of rq)"
  let ?G = "generate_ai_response env (snd ?A) ?cid (rq_message rq) (rq_model_id rq)"
  let ?am = "\<lparr>mc_content = concat (fst (fst ?G)), mc_role = ASSISTANT,
              mc_model_id = Some (rq_model_id rq)\<rparr>"
  let ?B = "add_message env (snd ?G) ?cid ?am"
  let ?w' = "snd (generate_stream env rq w)"
  obtain rest0 where a_calls: "calls (snd ?A) = calls w @ DbCommit ?um # rest0"
      and a_fail: "commit env w ?um \<noteq> None \<longrightarrow> rest0 = []"
    using add_message_calls [of env w ?cid "user_message_of rq"] by blast
  have a_store: "commit env w ?um = None \<longrightarrow> ?um \<in> set (messages (store (snd ?A)))"
    by (simp add: add_message_store)
  have a_inr: "\<And>m. fst ?A = Inr m \<Longrightarrow> commit env w ?um = None"
    using add_message_Inr [of env w ?cid "user_message_of rq"] by blast
  obtain rest1 where g_calls: "calls (snd ?G) = calls (snd ?A) @ DbLoad ?cid # rest1"
    using generate_ai_response_calls by blast
  have g_store: "store (snd ?G) = store (snd ?A)"
    by (rule generate_ai_response_store)
  obtain rest2 where b_calls: "calls (snd ?B) = calls (snd ?G) @ rest2"
    using add_message_calls [of env "snd ?G" ?cid ?am] by blast
  have b_store: "set (messages (store (snd ?G))) \<subseteq> set (messages (store (snd ?B)))"
    by (auto simp add: add_message_store)
  have w'_cases: "?w' = snd ?A \<and> (\<exists>e. fst ?A = Inl e) \<or>
                  (\<exists>m. fst ?A = Inr m) \<and> (?w' = snd ?G \<or> ?w' = snd ?B)"
    by (simp add: generate_stream_def Let_def case_prod_unfold
          split: sum.splits option.splits exn.splits)
  have fields: "m_content ?um = rq_message rq" "m_role ?um = USER" "m_conversation_id ?um = ?cid"
    by (simp_all add: message_row_fields user_message_of_def)
  from w'_cases show ?thesis
  proof (elim disjE conjE exE)
    assume "?w' = snd ?A"
    then show ?thesis using a_calls a_fail a_store fields by simp
  next
    fix m assume "fst ?A = Inr m" and "?w' = snd ?G"
    then show ?thesis using a_calls a_inr a_store g_calls g_store fields by simp
  next
    fix m assume "fst ?A = Inr m" and "?w' = snd ?B"
    then show ?thesis
      using a_calls a_inr a_store g_calls g_store b_calls b_store fields by auto
  qed
qed

text \<open>
  Witness for C6. Where the commit succeeds and loading the conversation raises, the
  stream is one error event and the user's message is stored; where the commit raises,
  it is the only call of the request.
\<close>

theorem user_message_persisted_first_witness:
  "commit load_down world0 (message_row load_down world0 1 (user_message_of (request ''hello'' ''gpt-4'')))
     = None
   \<and> fst (fst (generate_stream load_down (request ''hello'' ''gpt-4'') world0))
       = [ErrorEvent ''Error: connection lost'']
   \<and> message_row load_down world0 1 (user_message_of (request ''hello'' ''gpt-4''))
       \<in> set (messages (store (snd (generate_stream load_down (request ''hello'' ''gpt-4'') world0))))
   \<and> commit commit_down world0
        (message_row commit_down world0 1 (user_message_of (request ''hello'' ''gpt-4'')))
       = Some (Exception ''disk full'')
   \<and> calls (snd (generate_stream commit_down (request ''hello'' ''gpt-4'') world0))
       = [DbCommit (message_row commit_down world0 1 (user_message_of (request ''hello'' ''gpt-4'')))]"
proof -
  have c: "commit load_down world0
             (message_row load_down world0 1 (user_message_of (request ''hello'' ''gpt-4''))) = None"
    by (simp add: load_down_def quiet_def)
  have d: "commit commit_down world0
             (message_row commit_down world0 1 (user_message_of (request ''hello'' ''gpt-4'')))
             = Some (Exception ''disk full'')"
    by (simp add: commit_down_def quiet_def)
  have r: "rq_conversation_id (request ''hello'' ''gpt-4'') = 1"
    by (simp add: request_def)
  have e: "calls world0 = []"
    by (simp add: world0_def)
  have wire: "fst (fst (generate_stream load_down (request ''hello'' ''gpt-4'') world0))
                = [ErrorEvent ''Error: connection lost'']"
    by (simp add: generate_stream_def generate_ai_response_def add_message_def message_row_def
          user_message_of_def request_def load_down_def quiet_def world0_def record_call_def
          error_event_def closed_in_loop_def Let_def)
  show ?thesis
    using user_message_persisted_first [of load_down "request ''hello'' ''gpt-4''" world0]
      user_message_persisted_first [of commit_down "request ''hello'' ''gpt-4''" world0]
      c d r e wire
    by auto
qed


section \<open>Routing\<close>

lemma generate_ai_response_groq:
  assumes "routes_to_groq env model_id"
    and "get_conversation_with_messages env w cid = Inr history"
    and "get_enhanced_context env (record_call (DbLoad cid) w) user_text = (Inr ctx, w2)"
  shows "generate_ai_response env w cid user_text model_id
           = generate_groq_response env w2 (prepare_messages history user_text ctx) model_id"
  using assms
  by (auto simp add: generate_ai_response_def routes_to_groq_def Let_def)

lemma dict_get_default:
  "key \<notin> set (map fst d) \<Longrightarrow> dict_get d key dflt = dflt"
  by (simp add: dict_get_def map_of_eq_None_iff [THEN iffD2])

text \<open>An id that starts with \<^verbatim>\<open>groq\<close> always takes the Groq branch.\<close>

lemma groq_prefix_routes: "startswith model_id ''groq'' \<Longrightarrow> routes_to_groq env model_id"
  by (cases model_id; cases "tl model_id") (auto simp add: routes_to_groq_def)

text \<open>
  Claim C10. For every model id that takes the Groq branch (it does not start with
  \<^verbatim>\<open>gpt\<close> or \<^verbatim>\<open>claude\<close>, and starts with \<^verbatim>\<open>groq\<close> or contains \<^verbatim>\<open>llama\<close> in
  any case) but is not a key of the Groq alias table, the Groq generator opens the
  provider stream with the default model \<^verbatim>\<open>llama-3.1-70b-versatile\<close> and yields what
  that stream delivers, an error of the provider as a last chunk; it reports no unknown
  model, and nothing leaves it but a cancellation of the provider call. The
  conversation is loaded and the enrichment before it is not cancelled.
\<close>

theorem groq_unknown_model_default:
  assumes "routes_to_groq env model_id"
    and "model_id \<notin> set (map fst groq_model_map)"
    and "get_conversation_with_messages env w cid = Inr history"
    and "enrichment_uninterrupted env"
  shows "\<exists>ctx w2.
           get_enhanced_context env (record_call (DbLoad cid) w) user_text = (Inr ctx, w2)
         \<and> generate_ai_response env w cid user_text model_id
             = (except_yield ''Error with Groq API: ''
                  (case groq_create env w2 ''llama-3.1-70b-versatile''
                          (prepare_messages history user_text ctx) of
                     Inl x \<Rightarrow> ([], Some x)
                   | Inr stream \<Rightarrow> chunk_loop (events stream) (raised stream)),
                record_call
                  (GroqCreate ''llama-3.1-70b-versatile'' (prepare_messages history user_text ctx))
                  w2)
         \<and> (\<not> interrupts (groq_create env w2 ''llama-3.1-70b-versatile''
                              (prepare_messages history user_text ctx))
              \<longrightarrow> snd (fst (generate_ai_response env w cid user_text model_id)) = None)"
proof -
  obtain ctx w2 where
    e: "get_enhanced_context env (record_call (DbLoad cid) w) user_text = (Inr ctx, w2)"
    using get_enhanced_context_Inr [OF assms(4), of "record_call (DbLoad cid) w" user_text]
    by (cases "get_enhanced_context env (record_call (DbLoad cid) w) user_text") auto
  have d: "dict_get groq_model_map model_id ''llama-3.1-70b-versatile''
             = ''llama-3.1-70b-versatile''"
    using assms(2) by (rule dict_get_default)
  have g: "generate_groq_response env w2 (prepare_messages history user_text ctx) model_id
       = (except_yield ''Error with Groq API: ''
                  (case groq_create env w2 ''llama-3.1-70b-versatile''
                          (prepare_messages history user_text ctx) of
                     Inl x \<Rightarrow> ([], Some x)
                   | Inr stream \<Rightarrow> chunk_loop (events stream) (raised stream)),
          record_call
                  (GroqCreate ''llama-3.1-70b-versatile'' (prepare_messages history user_text ctx))
                  w2)"
    by (simp add: generate_groq_response_def d Let_def)
  have q: "\<not> interrupts (groq_create env w2 ''llama-3.1-70b-versatile''
                              (prepare_messages history user_text ctx))
              \<longrightarrow> snd (fst (generate_groq_response env w2
                                (prepare_messages history user_text ctx) model_id)) = None"
    using generate_groq_response_quiet [of env w2 model_id] by (simp add: d)
  show ?thesis
    using generate_ai_response_groq [OF assms(1) assms(3) e] e g q by simp
qed

text \<open>
  Witness for C10: \<^verbatim>\<open>my-Llama-2\<close> takes the Groq branch, is not an alias, and is
  served by the default model.
\<close>

theorem groq_unknown_model_default_witness:
  "routes_to_groq groq_hi ''my-Llama-2''
   \<and> ''my-Llama-2'' \<notin> set (map fst groq_model_map)
   \<and> enrichment_uninterrupted groq_hi
   \<and> generate_ai_response groq_hi world0 1 ''hello'' ''my-Llama-2''
       = (([''Hi''], None),
          record_call
            (GroqCreate ''llama-3.1-70b-versatile'' (prepare_messages [] ''hello'' no_context))
            (record_call (DbLoad 1) world0))"
proof -
  have r: "routes_to_groq groq_hi ''my-Llama-2''"
    by (simp add: routes_to_groq_def lower_def lower_char_def is_ascii_def)
  have k: "''my-Llama-2'' \<notin> set (map fst groq_model_map)"
    by (simp add: groq_model_map_def)
  have l: "get_conversation_with_messages groq_hi world0 1 = Inr []"
    by (simp add: groq_hi_def quiet_def world0_def)
  have u: "enrichment_uninterrupted groq_hi"
    by (simp add: enrichment_uninterrupted_def groq_hi_def quiet_def)
  have e: "get_enhanced_context groq_hi (record_call (DbLoad 1) world0) ''hello''
             = (Inr no_context, record_call (DbLoad 1) world0)"
    by (simp add: get_enhanced_context_def any_keyword_def freshness_keywords_def
          market_keywords_def lower_def lower_char_def is_ascii_def no_context_def Let_def)
  show ?thesis
    using groq_unknown_model_default [OF r k l u, of "''hello''"] r k u e
    by (simp add: groq_hi_def quiet_def except_yield_def)
qed

section \<open>Requests against a working store\<close>

text \<open>
  The facts of this section assume that committing, refreshing and loading succeed;
  what else they need of the collaborators is said in each.
\<close>

lemma add_message_works:
  assumes "\<forall>w m. commit env w m = None" and "\<forall>w m. refresh env w m = None"
  shows "add_message env w cid md =
     (Inr (message_row env w cid md),
      \<lparr>store = (store w)\<lparr>messages := messages (store w) @ [message_row env w cid md]\<rparr>,
       calls = calls w @ [DbCommit (message_row env w cid md), DbRefresh (message_row env w cid md)]\<rparr>)"
  using assms by (simp add: add_message_ok)

text \<open>
  With a working store, a generator that finishes and a loop that is not closed, the
  request runs to \<^verbatim>\<open>data: [DONE]\<close> and stores both messages.
\<close>

lemma generate_stream_served:
  assumes c: "\<forall>w m. commit env w m = None" and r: "\<forall>w m. refresh env w m = None"
    and g: "\<forall>w'. snd (fst (generate_ai_response env w' (rq_conversation_id rq) (rq_message rq)
                              (rq_model_id rq))) = None"
    and o: "\<forall>w'. closed_in_loop (client_gone env)
                   (fst (fst (generate_ai_response env w' (rq_conversation_id rq) (rq_message rq)
                               (rq_model_id rq)))) = None"
  shows "\<exists>w1 um am w2.
      add_message env w (rq_conversation_id rq) (user_message_of rq) = (Inr um, w1)
    \<and> um = message_row env w (rq_conversation_id rq) (user_message_of rq)
    \<and> generate_ai_response env w1 (rq_conversation_id rq) (rq_message rq) (rq_model_id rq)
        = ((fst (fst (generate_ai_response env w1 (rq_conversation_id rq) (rq_message rq)
                       (rq_model_id rq))), None), w2)
    \<and> am = message_row env w2 (rq_conversation_id rq)
             \<lparr>mc_content = concat (fst (fst (generate_ai_response env w1 (rq_conversation_id rq)
                                                (rq_message rq) (rq_model_id rq)))),
              mc_role = ASSISTANT, mc_model_id = Some (rq_model_id rq)\<rparr>
    \<and> fst (generate_stream env rq w)
        = (map ContentEvent (fst (fst (generate_ai_response env w1 (rq_conversation_id rq)
                                        (rq_message rq) (rq_model_id rq)))) @ [DoneEvent], None)
    \<and> messages (store (snd (generate_stream env rq w))) = messages (store w) @ [um, am]
    \<and> calls w1 = calls w @ [DbCommit um, DbRefresh um]
    \<and> calls (snd (generate_stream env rq w)) = calls w2 @ [DbCommit am, DbRefresh am]"
proof -
  let ?cid = "rq_conversation_id rq"
  let ?um = "message_row env w ?cid (user_message_of rq)"
  let ?w1 = "\<lparr>store = (store w)\<lparr>messages := messages (store w) @ [?um]\<rparr>,
              calls = calls w @ [DbCommit ?um, DbRefresh ?um]\<rparr>"
  let ?G = "generate_ai_response env ?w1 ?cid (rq_message rq) (rq_model_id rq)"
  let ?amc = "\<lparr>mc_content = concat (fst (fst ?G)), mc_role = ASSISTANT,
               mc_model_id = Some (rq_model_id rq)\<rparr>"
  let ?am = "message_row env (snd ?G) ?cid ?amc"
  have A: "add_message env w ?cid (user_message_of rq) = (Inr ?um, ?w1)"
    using c r by (rule add_message_works)
  have none: "snd (fst ?G) = None"
    using g by blast
  have op: "closed_in_loop (client_gone env) (fst (fst ?G)) = None"
    using o by blast
  have G: "?G = ((fst (fst ?G), None), snd ?G)"
    using none by (metis prod.collapse)
  have gs: "store (snd ?G) = store ?w1"
    by (rule generate_ai_response_store)
  have B: "add_message env (snd ?G) ?cid ?amc =
     (Inr ?am,
      \<lparr>store = (store (snd ?G))\<lparr>messages := messages (store (snd ?G)) @ [?am]\<rparr>,
       calls = calls (snd ?G) @ [DbCommit ?am, DbRefresh ?am]\<rparr>)"
    using c r by (rule add_message_works)
  have S: "generate_stream env rq w =
     ((map ContentEvent (fst (fst ?G)) @ [DoneEvent], None),
      \<lparr>store = (store (snd ?G))\<lparr>messages := messages (store (snd ?G)) @ [?am]\<rparr>,
       calls = calls (snd ?G) @ [DbCommit ?am, DbRefresh ?am]\<rparr>)"
    by (simp add: generate_stream_def A B none op Let_def case_prod_unfold)
  show ?thesis
    using A G S gs by (intro exI [of _ ?w1] exI [of _ ?um] exI [of _ ?am] exI [of _ "snd ?G"]) simp
qed

lemma generate_ai_response_unclaimed:
  assumes "unclaimed env model_id"
    and "get_conversation_with_messages env w cid = Inr history"
    and "enrichment_uninterrupted env"
  shows "generate_ai_response env w cid user_text model_id =
           (([], None),
            w\<lparr>calls := calls w @ [DbLoad cid]
                  @ (if any_keyword freshness_keywords (lower (unicode_lower env) user_text)
                     then [WebSearch user_text 3] else [])
                  @ (if any_keyword market_keywords (lower (unicode_lower env) user_text)
                     then [MarketData] else [])\<rparr>)"
proof -
  have s: "\<not> raises_base (search env (record_call (DbLoad cid) w) user_text 3)"
    and m: "\<And>w'. \<not> raises_base (get_market_data env w')"
    using assms(3) by (simp_all add: enrichment_uninterrupted_def)
  show ?thesis
    using assms(1,2) get_enhanced_context_returns [OF s m]
    by (simp add: generate_ai_response_def unclaimed_def Let_def record_call_def)
qed

text \<open>An id that no branch takes is not a key of the only alias table there is.\<close>

lemma unclaimed_no_alias:
  "unclaimed env model_id \<Longrightarrow> model_id \<notin> set (map fst groq_model_map)"
  by (auto simp add: unclaimed_def groq_model_map_def)

text \<open>
  Claim C2, as amended. For every model id that no branch of the routing chain takes
  (\<^verbatim>\<open>foo-bar\<close> for one), no failure is raised for it: the generator yields nothing and
  opens no provider stream, and the only network calls of the request are the
  enrichment calls that the text triggers. When the store's operations succeed and
  those enrichment calls are not cancelled, the stream is the single line
  \<^verbatim>\<open>data: [DONE]\<close>, and after the user's message an assistant message with empty
  content is persisted.
\<close>

theorem unclaimed_model_completes:
  assumes "unclaimed env (rq_model_id rq)"
    and "\<forall>w m. commit env w m = None" and "\<forall>w m. refresh env w m = None"
    and "\<forall>w cid. \<exists>history. get_conversation_with_messages env w cid = Inr history"
    and "enrichment_uninterrupted env"
  shows "\<exists>um am rest.
      fst (generate_stream env rq w) = ([DoneEvent], None)
    \<and> messages (store (snd (generate_stream env rq w))) = messages (store w) @ [um, am]
    \<and> m_role um = USER \<and> m_content um = rq_message rq
    \<and> m_role am = ASSISTANT \<and> m_content am = []
    \<and> calls (snd (generate_stream env rq w)) = calls w @ rest
    \<and> (\<forall>c \<in> set rest. \<not> is_provider_call c)
    \<and> filter is_network_call rest
        = (if any_keyword freshness_keywords (lower (unicode_lower env) (rq_message rq))
           then [WebSearch (rq_message rq) 3] else [])
          @ (if any_keyword market_keywords (lower (unicode_lower env) (rq_message rq))
             then [MarketData] else [])"
proof -
  let ?cid = "rq_conversation_id rq"
  let ?e = "(if any_keyword freshness_keywords (lower (unicode_lower env) (rq_message rq))
             then [WebSearch (rq_message rq) 3] else [])
            @ (if any_keyword market_keywords (lower (unicode_lower env) (rq_message rq))
               then [MarketData] else [])"
  have gen: "\<And>w'. generate_ai_response env w' ?cid (rq_message rq) (rq_model_id rq)
                = (([], None), w'\<lparr>calls := calls w' @ [DbLoad ?cid] @ ?e\<rparr>)"
  proof -
    fix w'
    obtain history where "get_conversation_with_messages env w' ?cid = Inr history"
      using assms(4) by blast
    from generate_ai_response_unclaimed [OF assms(1) this assms(5), of "rq_message rq"]
    show "generate_ai_response env w' ?cid (rq_message rq) (rq_model_id rq)
                = (([], None), w'\<lparr>calls := calls w' @ [DbLoad ?cid] @ ?e\<rparr>)"
      by simp
  qed
  have g: "\<forall>w'. snd (fst (generate_ai_response env w' ?cid (rq_message rq) (rq_model_id rq))) = None"
    by (simp add: gen)
  have o: "\<forall>w'. closed_in_loop (client_gone env)
                   (fst (fst (generate_ai_response env w' ?cid (rq_message rq) (rq_model_id rq))))
                 = None"
    by (simp add: gen closed_in_loop_def split: option.splits)
  obtain w1 um am w2 where
    um: "um = message_row env w ?cid (user_message_of rq)"
    and G: "generate_ai_response env w1 ?cid (rq_message rq) (rq_model_id rq)
        = ((fst (fst (generate_ai_response env w1 ?cid (rq_message rq) (rq_model_id rq))), None), w2)"
    and am: "am = message_row env w2 ?cid
             \<lparr>mc_content = concat (fst (fst (generate_ai_response env w1 ?cid
                                                (rq_message rq) (rq_model_id rq)))),
              mc_role = ASSISTANT, mc_model_id = Some (rq_model_id rq)\<rparr>"
    and wire: "fst (generate_stream env rq w)
        = (map ContentEvent (fst (fst (generate_ai_response env w1 ?cid
                                        (rq_message rq) (rq_model_id rq)))) @ [DoneEvent], None)"
    and st: "messages (store (snd (generate_stream env rq w))) = messages (store w) @ [um, am]"
    and c1: "calls w1 = calls w @ [DbCommit um, DbRefresh um]"
    and c3: "calls (snd (generate_stream env rq w)) = calls w2 @ [DbCommit am, DbRefresh am]"
    using generate_stream_served [OF assms(2) assms(3) g o, of w] by blast
  have w2: "w2 = w1\<lparr>calls := calls w1 @ [DbLoad ?cid] @ ?e\<rparr>"
    using G gen [of w1] by simp
  have c2: "calls w2 = calls w1 @ [DbLoad ?cid] @ ?e"
    by (simp add: w2)
  let ?rest = "[DbCommit um, DbRefresh um] @ [DbLoad ?cid] @ ?e @ [DbCommit am, DbRefresh am]"
  have calls: "calls (snd (generate_stream env rq w)) = calls w @ ?rest"
    using c1 c2 c3 by simp
  have np: "\<forall>c \<in> set ?rest. \<not> is_provider_call c"
    by auto
  have net: "filter is_network_call ?rest = ?e"
    by auto
  have u: "m_role um = USER" "m_content um = rq_message rq"
    by (simp_all add: um message_row_fields user_message_of_def)
  have a: "m_role am = ASSISTANT" "m_content am = []"
    by (simp_all add: am message_row_fields gen)
  have w: "fst (generate_stream env rq w) = ([DoneEvent], None)"
    using wire by (simp add: gen)
  show ?thesis
    using w st u a calls np net by blast
qed

text \<open>
  Witness for C2: \<^verbatim>\<open>foo-bar\<close> with collaborators that always succeed.
\<close>

theorem unclaimed_model_completes_witness:
  "unclaimed quiet ''foo-bar''
   \<and> (\<forall>w m. commit quiet w m = None) \<and> (\<forall>w m. refresh quiet w m = None)
   \<and> (\<forall>w cid. \<exists>history. get_conversation_with_messages quiet w cid = Inr history)
   \<and> enrichment_uninterrupted quiet
   \<and> fst (generate_stream quiet (request ''hello'' ''foo-bar'') world0) = ([DoneEvent], None)
   \<and> length (messages (store (snd (generate_stream quiet (request ''hello'' ''foo-bar'') world0))))
       = 2"
proof -
  have u: "unclaimed quiet (rq_model_id (request ''hello'' ''foo-bar''))"
    by (simp add: request_def unclaimed_def lower_def lower_char_def is_ascii_def)
  have c: "\<forall>w m. commit quiet w m = None" and r: "\<forall>w m. refresh quiet w m = None"
    by (simp_all add: quiet_def)
  have l: "\<forall>w cid. \<exists>history. get_conversation_with_messages quiet w cid = Inr history"
    by (simp add: quiet_def)
  have e: "enrichment_uninterrupted quiet"
    by (simp add: enrichment_uninterrupted_def quiet_def)
  show ?thesis
    using unclaimed_model_completes [OF u c r l e, of world0] u c r l e
    by (auto simp add: request_def world0_def)
qed

text \<open>
  Claim C2 as stated fails. With model id \<^verbatim>\<open>foo-bar\<close> the request ends with
  \<^verbatim>\<open>data: [DONE]\<close> and no error event, an assistant message with empty content is
  persisted after the user's message, and the web search, which the text triggers, has
  been called on the way.
\<close>

theorem unroutable_model_counterexample:
  "unclaimed quiet ''foo-bar''
   \<and> fst (generate_stream quiet (request ''any news today?'' ''foo-bar'') world0)
       = ([DoneEvent], None)
   \<and> map (\<lambda>m. (m_role m, m_content m))
        (messages (store (snd (generate_stream quiet (request ''any news today?'' ''foo-bar'') world0))))
       = [(USER, ''any news today?''), (ASSISTANT, [])]
   \<and> filter is_network_call
        (calls (snd (generate_stream quiet (request ''any news today?'' ''foo-bar'') world0)))
       = [WebSearch ''any news today?'' 3]"
  by (simp add: unclaimed_def generate_stream_def generate_ai_response_def add_message_def
        message_row_def user_message_of_def request_def quiet_def world0_def record_call_def
        get_enhanced_context_def any_keyword_def freshness_keywords_def market_keywords_def
        lower_def lower_char_def is_ascii_def closed_in_loop_def Let_def)

text \<open>
  What the loop yields over a stream whose chunks all have a choice: their deltas, those
  that are None or empty left out; and the loop ends as the stream does.
\<close>

lemma chunk_loop_deltas:
  "list_all (\<lambda>ch. choices ch \<noteq> []) evs \<Longrightarrow>
     chunk_loop evs exc = (concat (map delta_of evs), exc)"
  by (induction evs) (auto simp add: delta_of_def split: list.splits option.splits)

lemma chunk_loop_exception:
  "\<exists>ds e'. chunk_loop evs (Some (Exception e)) = (ds, Some (Exception e'))"
  by (induction evs) (auto split: list.splits option.splits)

lemma get_enhanced_context_Inl:
  "fst (get_enhanced_context env w user_message) = Inl x \<Longrightarrow> \<exists>n. x = BaseException n"
  by (auto simp add: get_enhanced_context_def Let_def split: sum.splits exn.splits if_splits)

lemma generate_ai_response_no_exception:
  assumes "get_conversation_with_messages env w cid = Inr history"
  shows "snd (fst (generate_ai_response env w cid user_text model_id)) \<noteq> Some (Exception e)"
proof (cases "fst (get_enhanced_context env (record_call (DbLoad cid) w) user_text)")
  case (Inl x)
  then obtain n where "x = BaseException n"
    using get_enhanced_context_Inl by blast
  with Inl assms show ?thesis
    by (simp add: generate_ai_response_def Let_def case_prod_unfold)
next
  case (Inr ctx)
  with assms show ?thesis
    by (simp add: generate_ai_response_def generate_openai_response_def
          generate_groq_response_def generate_anthropic_response_def Let_def case_prod_unfold
          except_yield_snd split: option.splits exn.splits)
qed

lemma generate_ai_response_finishes:
  assumes "uninterrupted env"
    and "get_conversation_with_messages env w cid = Inr history"
  shows "snd (fst (generate_ai_response env w cid user_text model_id)) = None"
proof (cases "snd (fst (generate_ai_response env w cid user_text model_id))")
  case None
  then show ?thesis .
next
  case (Some x)
  then show ?thesis
    using generate_ai_response_uninterrupted [OF assms(1), of w cid user_text model_id]
      generate_ai_response_no_exception [OF assms(2), of user_text model_id]
    by (cases x) simp_all
qed

lemma generate_ai_response_openai:
  assumes "startswith model_id ''gpt''"
    and "get_conversation_with_messages env w cid = Inr history"
    and "enrichment_uninterrupted env"
    and "\<forall>w msgs. openai_create env w model_id msgs
                     = Inr \<lparr>events = evs, raised = Some (Exception e)\<rparr>"
    and "chunk_loop evs (Some (Exception e)) = (ds, Some (Exception e'))"
  shows "fst (generate_ai_response env w cid user_text model_id) = (ds @ [''Error: '' @ e'], None)"
proof -
  obtain ctx where "fst (get_enhanced_context env (record_call (DbLoad cid) w) user_text) = Inr ctx"
    using get_enhanced_context_Inr [OF assms(3)] by blast
  with assms(1,2,4,5) show ?thesis
    by (simp add: generate_ai_response_def generate_openai_response_def except_yield_def
          Let_def case_prod_unfold)
qed

text \<open>
  Claim C4 as stated fails. After the deltas \<^verbatim>\<open>Hello\<close>, \<^verbatim>\<open> there\<close> and an error
  of the provider the stream carries a third content event and ends with
  \<^verbatim>\<open>data: [DONE]\<close>, not with an error event, and the persisted assistant message is
  \<^verbatim>\<open>Hello thereError: boom\<close>. When the provider raises before any delta, an
  assistant message \<^verbatim>\<open>Error: boom\<close> is persisted all the same.
\<close>

theorem midstream_failure_counterexample:
  "fst (generate_stream hello_then_error (request ''hi'' ''gpt-4'') world0)
     = ([ContentEvent ''Hello'', ContentEvent '' there'', ContentEvent ''Error: boom'', DoneEvent],
        None)
   \<and> map (\<lambda>m. (m_role m, m_content m))
        (messages (store (snd (generate_stream hello_then_error (request ''hi'' ''gpt-4'') world0))))
       = [(USER, ''hi''), (ASSISTANT, ''Hello thereError: boom'')]
   \<and> fst (generate_stream error_at_once (request ''hi'' ''gpt-4'') world0)
       = ([ContentEvent ''Error: boom'', DoneEvent], None)
   \<and> map (\<lambda>m. (m_role m, m_content m))
        (messages (store (snd (generate_stream error_at_once (request ''hi'' ''gpt-4'') world0))))
       = [(USER, ''hi''), (ASSISTANT, ''Error: boom'')]"
  by (simp add: generate_stream_def generate_ai_response_def generate_openai_response_def
        except_yield_def closed_in_loop_def add_message_def message_row_def
        user_message_of_def request_def hello_then_error_def error_at_once_def quiet_def
        world0_def record_call_def get_enhanced_context_def any_keyword_def
        freshness_keywords_def market_keywords_def lower_def lower_char_def is_ascii_def
        Let_def)

text \<open>
  The same stream with a store that fails on the assistant message: the three content
  events are followed by an error event, and only the user's message is stored.
\<close>

lemma midstream_failure_store_down:
  "fst (generate_stream hello_then_error_store_down (request ''hi'' ''gpt-4'') world0)
     = ([ContentEvent ''Hello'', ContentEvent '' there'', ContentEvent ''Error: boom'',
         ErrorEvent ''Error: disk full''], None)
   \<and> map (\<lambda>m. (m_role m, m_content m))
        (messages (store (snd (generate_stream hello_then_error_store_down
                                 (request ''hi'' ''gpt-4'') world0))))
       = [(USER, ''hi'')]"
  by (simp add: generate_stream_def generate_ai_response_def generate_openai_response_def
        except_yield_def closed_in_loop_def add_message_def message_row_def error_event_def
        user_message_of_def request_def hello_then_error_store_down_def hello_then_error_def
        quiet_def world0_def record_call_def get_enhanced_context_def any_keyword_def
        freshness_keywords_def market_keywords_def lower_def lower_char_def is_ascii_def
        Let_def)

text \<open>
  Claim C4, as amended. Take a request for an OpenAI model in which the store's
  operations succeed, the enrichment calls are not cancelled and the client reads to the
  end, and whose provider stream delivers its chunks and then fails with an error, an
  instance of \<^verbatim>\<open>Exception\<close>. The generator's handler yields the text
  \<^verbatim>\<open>Error: \<close> followed by the error's message as one more chunk and finishes, so the
  stream is the content events of the deltas yielded (\<open>ds\<close>), a content event with
  the error text, and \<^verbatim>\<open>data: [DONE]\<close>; the persisted assistant message is the
  concatenation of the deltas followed by the error text, without a tag. This holds for
  zero deltas as well: the assistant message is then the error text. Where every chunk
  has a choice, the deltas are the contents of the chunks, those that are None or empty
  left out, and the error is the one the stream raised.
\<close>

theorem openai_failure_becomes_content:
  assumes "startswith (rq_model_id rq) ''gpt''"
    and "\<forall>w m. commit env w m = None" and "\<forall>w m. refresh env w m = None"
    and "\<forall>w cid. \<exists>history. get_conversation_with_messages env w cid = Inr history"
    and "enrichment_uninterrupted env"
    and "client_gone env = None"
    and "\<forall>w msgs. openai_create env w (rq_model_id rq) msgs
                     = Inr \<lparr>events = evs, raised = Some (Exception e)\<rparr>"
  shows "\<exists>ds e' um am.
      chunk_loop evs (Some (Exception e)) = (ds, Some (Exception e'))
    \<and> (list_all (\<lambda>ch. choices ch \<noteq> []) evs \<longrightarrow> ds = concat (map delta_of evs) \<and> e' = e)
    \<and> fst (generate_stream env rq w)
        = (map ContentEvent ds @ [ContentEvent (''Error: '' @ e'), DoneEvent], None)
    \<and> messages (store (snd (generate_stream env rq w))) = messages (store w) @ [um, am]
    \<and> m_role um = USER \<and> m_content um = rq_message rq
    \<and> m_role am = ASSISTANT \<and> m_content am = concat ds @ ''Error: '' @ e'"
proof -
  let ?cid = "rq_conversation_id rq"
  obtain ds e' where loop: "chunk_loop evs (Some (Exception e)) = (ds, Some (Exception e'))"
    using chunk_loop_exception by blast
  have wf: "list_all (\<lambda>ch. choices ch \<noteq> []) evs \<longrightarrow> ds = concat (map delta_of evs) \<and> e' = e"
    using loop chunk_loop_deltas [of evs "Some (Exception e)"] by auto
  have gen: "\<And>w'. fst (generate_ai_response env w' ?cid (rq_message rq) (rq_model_id rq))
                = (ds @ [''Error: '' @ e'], None)"
  proof -
    fix w'
    obtain history where "get_conversation_with_messages env w' ?cid = Inr history"
      using assms(4) by blast
    from generate_ai_response_openai [OF assms(1) this assms(5) assms(7) loop]
    show "fst (generate_ai_response env w' ?cid (rq_message rq) (rq_model_id rq))
                = (ds @ [''Error: '' @ e'], None)" .
  qed
  have g: "\<forall>w'. snd (fst (generate_ai_response env w' ?cid (rq_message rq) (rq_model_id rq))) = None"
    by (simp add: gen)
  have o: "\<forall>w'. closed_in_loop (client_gone env)
                   (fst (fst (generate_ai_response env w' ?cid (rq_message rq) (rq_model_id rq))))
                 = None"
    by (simp add: assms(6) closed_in_loop_def)
  obtain w1 um am w2 where
    um: "um = message_row env w ?cid (user_message_of rq)"
    and am: "am = message_row env w2 ?cid
             \<lparr>mc_content = concat (fst (fst (generate_ai_response env w1 ?cid
                                                (rq_message rq) (rq_model_id rq)))),
              mc_role = ASSISTANT, mc_model_id = Some (rq_model_id rq)\<rparr>"
    and wire: "fst (generate_stream env rq w)
        = (map ContentEvent (fst (fst (generate_ai_response env w1 ?cid
                                        (rq_message rq) (rq_model_id rq)))) @ [DoneEvent], None)"
    and st: "messages (store (snd (generate_stream env rq w))) = messages (store w) @ [um, am]"
    using generate_stream_served [OF assms(2) assms(3) g o, of w] by blast
  have "m_role um = USER" "m_content um = rq_message rq"
    by (simp_all add: um message_row_fields user_message_of_def)
  moreover have "m_role am = ASSISTANT" "m_content am = concat ds @ ''Error: '' @ e'"
    by (simp_all add: am message_row_fields gen)
  moreover have "fst (generate_stream env rq w)
                   = (map ContentEvent ds @ [ContentEvent (''Error: '' @ e'), DoneEvent], None)"
    using wire by (simp add: gen)
  ultimately show ?thesis using st loop wf by blast
qed

text \<open>
  Witness for C4: the deltas \<^verbatim>\<open>Hello\<close>, None and \<^verbatim>\<open> there\<close>, then the error
  \<^verbatim>\<open>boom\<close>.
\<close>

theorem openai_failure_becomes_content_witness:
  "startswith ''gpt-4'' ''gpt''
   \<and> (\<forall>w m. commit hello_then_error w m = None) \<and> (\<forall>w m. refresh hello_then_error w m = None)
   \<and> (\<forall>w cid. \<exists>history. get_conversation_with_messages hello_then_error w cid = Inr history)
   \<and> enrichment_uninterrupted hello_then_error
   \<and> client_gone hello_then_error = None
   \<and> (\<forall>w msgs. openai_create hello_then_error w ''gpt-4'' msgs
                  = Inr \<lparr>events = [\<lparr>choices = [Some ''Hello'']\<rparr>, \<lparr>choices = [None]\<rparr>,
                                   \<lparr>choices = [Some '' there'']\<rparr>],
                        raised = Some (Exception ''boom'')\<rparr>)
   \<and> fst (generate_stream hello_then_error (request ''hi'' ''gpt-4'') world0)
       = ([ContentEvent ''Hello'', ContentEvent '' there'', ContentEvent ''Error: boom'',
           DoneEvent], None)"
proof -
  let ?evs = "[\<lparr>choices = [Some ''Hello'']\<rparr>, \<lparr>choices = [None]\<rparr>, \<lparr>choices = [Some '' there'']\<rparr>]"
  have g: "startswith (rq_model_id (request ''hi'' ''gpt-4'')) ''gpt''"
    by (simp add: request_def)
  have c: "\<forall>w m. commit hello_then_error w m = None"
    and r: "\<forall>w m. refresh hello_then_error w m = None"
    by (simp_all add: hello_then_error_def quiet_def)
  have l: "\<forall>w cid. \<exists>history. get_conversation_with_messages hello_then_error w cid = Inr history"
    by (simp add: hello_then_error_def quiet_def)
  have u: "enrichment_uninterrupted hello_then_error"
    by (simp add: enrichment_uninterrupted_def hello_then_error_def quiet_def)
  have n: "client_gone hello_then_error = None"
    by (simp add: hello_then_error_def quiet_def)
  have o: "\<forall>w msgs. openai_create hello_then_error w (rq_model_id (request ''hi'' ''gpt-4'')) msgs
             = Inr \<lparr>events = ?evs, raised = Some (Exception ''boom'')\<rparr>"
    by (simp add: hello_then_error_def quiet_def request_def)
  have loop: "chunk_loop ?evs (Some (Exception ''boom''))
                = ([''Hello'', '' there''], Some (Exception ''boom''))"
    by simp
  show ?thesis
    using openai_failure_becomes_content [OF g c r l u n o, of world0] g c r l u n o loop
    by (auto simp add: request_def)
qed

lemma generate_stream_served_uninterrupted:
  assumes c: "\<forall>w m. commit env w m = None" and r: "\<forall>w m. refresh env w m = None"
    and l: "\<forall>w cid. \<exists>history. get_conversation_with_messages env w cid = Inr history"
    and u: "uninterrupted env"
  shows "(\<forall>w'. snd (fst (generate_ai_response env w' cid user_text model_id)) = None)
       \<and> (\<forall>w'. closed_in_loop (client_gone env)
                  (fst (fst (generate_ai_response env w' cid user_text model_id))) = None)"
proof -
  have "\<And>w'. snd (fst (generate_ai_response env w' cid user_text model_id)) = None"
  proof -
    fix w'
    obtain history where "get_conversation_with_messages env w' cid = Inr history"
      using l by blast
    from generate_ai_response_finishes [OF u this]
    show "snd (fst (generate_ai_response env w' cid user_text model_id)) = None" .
  qed
  moreover have "client_gone env = None"
    using u by (simp add: uninterrupted_def)
  ultimately show ?thesis by (simp add: closed_in_loop_def)
qed

text \<open>
  Claim C8, as amended. A stream request is handled the same way whatever the state of
  the conversation, another request in flight on it included: the endpoint has no
  in-flight check and no Busy rejection. With a working store and nothing cancelled, it
  persists its user message on the conversation, streams the chunks, persists the
  assistant message and ends with \<^verbatim>\<open>data: [DONE]\<close>.
\<close>

theorem stream_request_always_served:
  assumes "\<forall>w m. commit env w m = None" and "\<forall>w m. refresh env w m = None"
    and "\<forall>w cid. \<exists>history. get_conversation_with_messages env w cid = Inr history"
    and "uninterrupted env"
  shows "\<exists>ys um am.
      fst (generate_stream env rq w) = (map ContentEvent ys @ [DoneEvent], None)
    \<and> messages (store (snd (generate_stream env rq w))) = messages (store w) @ [um, am]
    \<and> m_role um = USER \<and> m_content um = rq_message rq
    \<and> m_conversation_id um = rq_conversation_id rq
    \<and> m_role am = ASSISTANT \<and> m_content am = concat ys
    \<and> m_conversation_id am = rq_conversation_id rq"
proof -
  let ?cid = "rq_conversation_id rq"
  have g: "\<forall>w'. snd (fst (generate_ai_response env w' ?cid (rq_message rq) (rq_model_id rq))) = None"
    and o: "\<forall>w'. closed_in_loop (client_gone env)
                   (fst (fst (generate_ai_response env w' ?cid (rq_message rq) (rq_model_id rq))))
                 = None"
    using generate_stream_served_uninterrupted [OF assms] by blast+
  obtain w1 um am w2 where
    um: "um = message_row env w ?cid (user_message_of rq)"
    and am: "am = message_row env w2 ?cid
             \<lparr>mc_content = concat (fst (fst (generate_ai_response env w1 ?cid
                                                (rq_message rq) (rq_model_id rq)))),
              mc_role = ASSISTANT, mc_model_id = Some (rq_model_id rq)\<rparr>"
    and wire: "fst (generate_stream env rq w)
        = (map ContentEvent (fst (fst (generate_ai_response env w1 ?cid
                                        (rq_message rq) (rq_model_id rq)))) @ [DoneEvent], None)"
    and st: "messages (store (snd (generate_stream env rq w))) = messages (store w) @ [um, am]"
    using generate_stream_served [OF assms(1) assms(2) g o, of w] by blast
  have "m_role um = USER" "m_content um = rq_message rq" "m_conversation_id um = ?cid"
    by (simp_all add: um message_row_fields user_message_of_def)
  moreover have "m_role am = ASSISTANT" "m_conversation_id am = ?cid"
      "m_content am = concat (fst (fst (generate_ai_response env w1 ?cid
                                          (rq_message rq) (rq_model_id rq))))"
    by (simp_all add: am message_row_fields)
  ultimately show ?thesis using wire st by blast
qed

lemma first_in_flight_eq:
  "first_in_flight =
     \<lparr>store = \<lparr>conversations = conversations (store world0),
                messages = [\<lparr>m_id = 1, m_content = ''first'', m_role = USER,
                             m_conversation_id = 1, m_model_id = Some ''groq-mixtral'',
                             m_token_count = None, m_created_at = 200\<rparr>]\<rparr>,
      calls = [DbCommit \<lparr>m_id = 1, m_content = ''first'', m_role = USER,
                             m_conversation_id = 1, m_model_id = Some ''groq-mixtral'',
                             m_token_count = None, m_created_at = 200\<rparr>,
               DbRefresh \<lparr>m_id = 1, m_content = ''first'', m_role = USER,
                             m_conversation_id = 1, m_model_id = Some ''groq-mixtral'',
                             m_token_count = None, m_created_at = 200\<rparr>]\<rparr>"
  by (simp add: first_in_flight_def add_message_def message_row_def user_message_of_def
        request_def groq_hi_def quiet_def world0_def record_call_def Let_def)

text \<open>
  Claim C8 as stated fails. The first request on conversation 1 has persisted its user
  message and is not finished; a second request on the same conversation is not
  rejected: it persists its own user message, streams \<^verbatim>\<open>Hi\<close> and
  \<^verbatim>\<open>data: [DONE]\<close>, and persists its assistant message.
\<close>

theorem second_request_counterexample:
  "map (\<lambda>m. (m_role m, m_content m)) (messages (store first_in_flight)) = [(USER, ''first'')]
   \<and> fst (generate_stream groq_hi (request ''second'' ''groq-mixtral'') first_in_flight)
       = ([ContentEvent ''Hi'', DoneEvent], None)
   \<and> map (\<lambda>m. (m_role m, m_content m))
        (messages (store (snd (generate_stream groq_hi (request ''second'' ''groq-mixtral'')
                                 first_in_flight))))
       = [(USER, ''first''), (USER, ''second''), (ASSISTANT, ''Hi'')]"
  by (simp add: first_in_flight_eq generate_stream_def generate_ai_response_def
        generate_groq_response_def except_yield_def closed_in_loop_def groq_model_map_def
        dict_get_def add_message_def message_row_def user_message_of_def request_def
        groq_hi_def quiet_def world0_def record_call_def get_enhanced_context_def
        any_keyword_def freshness_keywords_def market_keywords_def lower_def lower_char_def
        is_ascii_def Let_def)

text \<open>
  Witness for C8: the second request on the conversation whose first request is in
  flight.
\<close>

theorem stream_request_always_served_witness:
  "(\<forall>w m. commit groq_hi w m = None) \<and> (\<forall>w m. refresh groq_hi w m = None)
   \<and> (\<forall>w cid. \<exists>history. get_conversation_with_messages groq_hi w cid = Inr history)
   \<and> uninterrupted groq_hi
   \<and> (\<exists>ys um am.
        fst (generate_stream groq_hi (request ''second'' ''groq-mixtral'') first_in_flight)
          = (map ContentEvent ys @ [DoneEvent], None)
      \<and> messages (store (snd (generate_stream groq_hi (request ''second'' ''groq-mixtral'')
                                 first_in_flight)))
          = messages (store first_in_flight) @ [um, am]
      \<and> m_content um = ''second'' \<and> m_conversation_id um = 1)"
proof -
  have c: "\<forall>w m. commit groq_hi w m = None" and r: "\<forall>w m. refresh groq_hi w m = None"
    by (simp_all add: groq_hi_def quiet_def)
  have l: "\<forall>w cid. \<exists>history. get_conversation_with_messages groq_hi w cid = Inr history"
    by (simp add: groq_hi_def quiet_def)
  have q: "rq_message (request ''second'' ''groq-mixtral'') = ''second''"
    "rq_conversation_id (request ''second'' ''groq-mixtral'') = 1"
    by (simp_all add: request_def)
  show ?thesis
    using stream_request_always_served [OF c r l uninterrupted_groq_hi,
        of "request ''second'' ''groq-mixtral''" first_in_flight]
      c r l q uninterrupted_groq_hi by (metis (no_types, lifting))
qed

end
